theory Spec2Isabelle
  imports Main "HOL-Library.Word" "HOL-Library.Multiset"
begin

section \<open>Data model of the realtime chat hook\<close>

text \<open>
  The hook \<^verbatim>\<open>useRealtimeChat\<close> (src/src/hooks/useRealtimeChat.ts) and the send handler of
  the chat page (\<^verbatim>\<open>handleSendMessage\<close>) are embedded as functions on an explicit world:
  the tables of the store, the log of requests sent to the store, the notifications shown
  to the user, and the React state of the hook.

  Identifiers, names and notification texts are only compared and tested for emptiness;
  they are HOL strings. The content of a message is the one string whose characters the
  code inspects (\<^verbatim>\<open>trim\<close>, \<^verbatim>\<open>length\<close>): it is a sequence of UTF-16 code units, which
  is what a JavaScript string is and what its \<^verbatim>\<open>length\<close> counts. Timestamps are natural
  numbers, ordered as time is.
\<close>

type_synonym uuid = string
type_synonym timestamp = nat
type_synonym code_unit = "16 word"
type_synonym js_string = "code_unit list"

text \<open>\<^verbatim>\<open>interface Message\<close>; the field \<^verbatim>\<open>id\<close> is \<open>id_msg\<close>.\<close>

record message =
  id_msg :: uuid
  sender_id :: uuid
  content :: js_string
  created_at :: timestamp
  barter_request_id :: "uuid option"

text \<open>\<^verbatim>\<open>interface Conversation\<close>; the fields \<^verbatim>\<open>id\<close> and \<^verbatim>\<open>barter_request_id\<close> are
  \<open>id_conv\<close> and \<open>barter_request_id_conv\<close>.\<close>

record conversation =
  id_conv :: uuid
  participant_id :: uuid
  participant_name :: string
  participant_avatar :: string
  lastMessage :: "js_string option"
  lastMessageTime :: "timestamp option"
  barter_request_id_conv :: "uuid option"

text \<open>Rows of the tables \<^verbatim>\<open>skills\<close>, \<^verbatim>\<open>barter_requests\<close> and of the view
  \<^verbatim>\<open>profiles_public\<close>, with the columns the hook reads or writes.\<close>

record skill =
  id_skill :: uuid
  user_id :: uuid

record barter_request =
  id_req :: uuid
  requester_id :: uuid
  requested_skill_id :: uuid
  offered_skill_id :: uuid
  status :: string
  updated_at :: timestamp

record profile =
  id_profile :: uuid
  full_name :: "string option"
  avatar_url :: "string option"

text \<open>A row of the select in \<^verbatim>\<open>fetchConversations\<close>: the request's columns and the embedded
  join \<^verbatim>\<open>skills!barter_requests_requested_skill_id_fkey(user_id)\<close>, read in the code as
  \<^verbatim>\<open>request.skills?.user_id\<close> (absent when the requested skill does not resolve).\<close>

record request_row = barter_request +
  skills_user_id :: "uuid option"

text \<open>The requests the hook sends to the store, and the errors the store answers with.\<close>

datatype store_call =
    SelectBarterRequests
  | SelectProfile uuid
  | SelectLastMessage uuid
  | SelectMessages uuid
  | InsertMessage uuid uuid js_string
  | UpdateBarterRequest uuid timestamp
  | SelectRequestOfRequester uuid
  | InsertBarterRequest uuid uuid uuid string

datatype store_error = StoreUnreachable | NotSingleRow

text \<open>What an \<^verbatim>\<open>async\<close> function does when it ends: it returns, or it throws.\<close>

datatype 'a outcome = Returned 'a | Thrown store_error

text \<open>
  The world. \<open>fails\<close> says which requests the store answers with an error; \<open>fresh_id\<close> and
  \<open>issued\<close> are the store's generator of row ids; \<open>now\<close> is the clock, which the operations
  read and the environment advances between them. \<open>conversations\<close>, \<open>messages\<close>,
  \<open>currentUserId\<close> and \<open>loading\<close> are the four \<^verbatim>\<open>useState\<close> cells of the hook.
\<close>

record world =
  skills :: "skill list"
  barter_requests :: "barter_request list"
  messages_table :: "message list"
  profiles_public :: "profile list"
  fails :: "store_call \<Rightarrow> bool"
  fresh_id :: "nat \<Rightarrow> uuid"
  issued :: nat
  now :: timestamp
  calls :: "store_call list"
  toasts :: "string list"
  console :: "string list"
  conversations :: "conversation list"
  messages :: "uuid \<Rightarrow> message list option"
  currentUserId :: "uuid option"
  loading :: bool

section \<open>JavaScript strings\<close>

text \<open>A string or \<^verbatim>\<open>null\<close>/\<^verbatim>\<open>undefined\<close> in a condition: falsy when absent or empty.\<close>

fun truthy :: "string option \<Rightarrow> bool" where
  "truthy None = False"
| "truthy (Some s) = (s \<noteq> [])"

text \<open>\<^verbatim>\<open>a || b\<close> on strings: \<open>b\<close> when \<open>a\<close> is falsy.\<close>

fun or_else :: "string option \<Rightarrow> string \<Rightarrow> string" where
  "or_else None d = d"
| "or_else (Some s) d = (if s = [] then d else s)"

text \<open>\<^verbatim>\<open>a || []\<close> on arrays: an array is never falsy.\<close>

fun or_empty :: "'a list option \<Rightarrow> 'a list" where
  "or_empty None = []"
| "or_empty (Some xs) = xs"

text \<open>\<^verbatim>\<open>String.prototype.trim\<close> strips WhiteSpace and LineTerminator code points from both
  ends: TAB, LF, VT, FF, CR, SP, NBSP, the Unicode space separators, LS, PS and the BOM.\<close>

definition is_white_space :: "code_unit \<Rightarrow> bool" where
  "is_white_space c \<longleftrightarrow>
     c = 0x0009 \<or> c = 0x000A \<or> c = 0x000B \<or> c = 0x000C \<or> c = 0x000D \<or> c = 0x0020 \<or>
     c = 0x00A0 \<or> c = 0x1680 \<or> (0x2000 \<le> c \<and> c \<le> 0x200A) \<or> c = 0x2028 \<or> c = 0x2029 \<or>
     c = 0x202F \<or> c = 0x205F \<or> c = 0x3000 \<or> c = 0xFEFF"

definition trim :: "js_string \<Rightarrow> js_string" where
  "trim s = rev (dropWhile is_white_space (rev (dropWhile is_white_space s)))"

section \<open>The store gateway\<close>

text \<open>
  The client library answers every request with a pair of data and error. \<^verbatim>\<open>.single()\<close>
  wants exactly one row and \<^verbatim>\<open>.maybeSingle()\<close> at most one; with any other number of rows
  they answer with an error and no data.
\<close>

fun single :: "'a list \<Rightarrow> store_error + 'a" where
  "single [x] = Inr x"
| "single _ = Inl NotSingleRow"

fun maybeSingle :: "'a list \<Rightarrow> store_error + 'a option" where
  "maybeSingle [] = Inr None"
| "maybeSingle [x] = Inr (Some x)"
| "maybeSingle _ = Inl NotSingleRow"

text \<open>The \<^verbatim>\<open>data\<close> component of an answer: \<^verbatim>\<open>null\<close> when the answer is an error, and,
  for \<^verbatim>\<open>.maybeSingle()\<close>, also when there is no row.\<close>

fun data_of :: "store_error + 'a \<Rightarrow> 'a option" where
  "data_of (Inl e) = None"
| "data_of (Inr d) = Some d"

fun data_of_maybe :: "store_error + 'a option \<Rightarrow> 'a option" where
  "data_of_maybe (Inl e) = None"
| "data_of_maybe (Inr d) = d"

text \<open>Every request is logged; an unreachable store answers with an error.\<close>

definition log_call :: "world \<Rightarrow> store_call \<Rightarrow> world" where
  "log_call w c = w\<lparr>calls := calls w @ [c]\<rparr>"

definition join_skill :: "world \<Rightarrow> barter_request \<Rightarrow> request_row" where
  "join_skill w r =
     \<lparr>id_req = id_req r, requester_id = requester_id r,
      requested_skill_id = requested_skill_id r, offered_skill_id = offered_skill_id r,
      status = status r, updated_at = updated_at r,
      skills_user_id = map_option user_id (find (\<lambda>s. id_skill s = requested_skill_id r) (skills w))\<rparr>"

text \<open>\<^verbatim>\<open>from('barter_requests').select(...).order('updated_at', { ascending: false })\<close>\<close>

definition rows_of_barter_requests :: "world \<Rightarrow> request_row list" where
  "rows_of_barter_requests w = map (join_skill w) (rev (sort_key updated_at (barter_requests w)))"

definition select_barter_requests :: "world \<Rightarrow> (store_error + request_row list) \<times> world" where
  "select_barter_requests w =
     (if fails w SelectBarterRequests then Inl StoreUnreachable
      else Inr (rows_of_barter_requests w),
      log_call w SelectBarterRequests)"

text \<open>\<^verbatim>\<open>from('profiles_public').select('id, full_name, avatar_url').eq('id', otherUserId).single()\<close>\<close>

definition select_profile :: "world \<Rightarrow> uuid \<Rightarrow> (store_error + profile) \<times> world" where
  "select_profile w u =
     (if fails w (SelectProfile u) then Inl StoreUnreachable
      else single (filter (\<lambda>p. id_profile p = u) (profiles_public w)),
      log_call w (SelectProfile u))"

text \<open>\<^verbatim>\<open>from('messages').select('content, created_at').eq('barter_request_id', request.id)
  .order('created_at', { ascending: false }).limit(1).maybeSingle()\<close>\<close>

definition select_last_message :: "world \<Rightarrow> uuid \<Rightarrow> (store_error + message option) \<times> world" where
  "select_last_message w rid =
     (if fails w (SelectLastMessage rid) then Inl StoreUnreachable
      else maybeSingle (take 1 (rev (sort_key created_at
             (filter (\<lambda>m. barter_request_id m = Some rid) (messages_table w))))),
      log_call w (SelectLastMessage rid))"

text \<open>\<^verbatim>\<open>from('messages').select('*').eq('barter_request_id', barterRequestId)
  .order('created_at', { ascending: true })\<close>\<close>

definition rows_of_messages :: "world \<Rightarrow> uuid \<Rightarrow> message list" where
  "rows_of_messages w rid =
     sort_key created_at (filter (\<lambda>m. barter_request_id m = Some rid) (messages_table w))"

definition select_messages :: "world \<Rightarrow> uuid \<Rightarrow> (store_error + message list) \<times> world" where
  "select_messages w rid =
     (if fails w (SelectMessages rid) then Inl StoreUnreachable
      else Inr (rows_of_messages w rid),
      log_call w (SelectMessages rid))"

text \<open>\<^verbatim>\<open>from('messages').insert({ barter_request_id, sender_id, content })\<close>: the store gives
  the row its id and its creation time.\<close>

definition insert_message :: "world \<Rightarrow> uuid \<Rightarrow> uuid \<Rightarrow> js_string \<Rightarrow> (store_error + message) \<times> world" where
  "insert_message w rid sender text =
     (let c = InsertMessage rid sender text;
          m = \<lparr>id_msg = fresh_id w (issued w), sender_id = sender, content = text,
               created_at = now w, barter_request_id = Some rid\<rparr>
      in if fails w c then (Inl StoreUnreachable, log_call w c)
         else (Inr m, (log_call w c)\<lparr>messages_table := messages_table w @ [m],
                                     issued := Suc (issued w)\<rparr>))"

text \<open>\<^verbatim>\<open>from('barter_requests').update({ updated_at }).eq('id', barterRequestId)\<close>\<close>

definition update_barter_request :: "world \<Rightarrow> uuid \<Rightarrow> timestamp \<Rightarrow> (store_error + unit) \<times> world" where
  "update_barter_request w rid t =
     (let c = UpdateBarterRequest rid t
      in if fails w c then (Inl StoreUnreachable, log_call w c)
         else (Inr (), (log_call w c)\<lparr>barter_requests :=
                 map (\<lambda>r. if id_req r = rid then r\<lparr>updated_at := t\<rparr> else r) (barter_requests w)\<rparr>))"

text \<open>\<^verbatim>\<open>from('barter_requests').select('id').eq('requester_id', currentUserId).maybeSingle()\<close>\<close>

definition select_request_of_requester :: "world \<Rightarrow> uuid \<Rightarrow> (store_error + uuid option) \<times> world" where
  "select_request_of_requester w u =
     (if fails w (SelectRequestOfRequester u) then Inl StoreUnreachable
      else maybeSingle (map id_req (filter (\<lambda>r. requester_id r = u) (barter_requests w))),
      log_call w (SelectRequestOfRequester u))"

text \<open>\<^verbatim>\<open>from('barter_requests').insert({ requester_id, requested_skill_id, offered_skill_id,
  status }).select('id').single()\<close>: the store gives the row its id and its activity time.\<close>

definition insert_barter_request ::
  "world \<Rightarrow> uuid \<Rightarrow> uuid \<Rightarrow> uuid \<Rightarrow> string \<Rightarrow> (store_error + uuid) \<times> world" where
  "insert_barter_request w requester requested offered st =
     (let c = InsertBarterRequest requester requested offered st;
          r = \<lparr>id_req = fresh_id w (issued w), requester_id = requester,
               requested_skill_id = requested, offered_skill_id = offered,
               status = st, updated_at = now w\<rparr>
      in if fails w c then (Inl StoreUnreachable, log_call w c)
         else (Inr (id_req r), (log_call w c)\<lparr>barter_requests := barter_requests w @ [r],
                                              issued := Suc (issued w)\<rparr>))"

section \<open>The hook\<close>

subsection \<open>fetchConversations\<close>

text \<open>
  One iteration of the loop over the fetched requests: the conversation it pushes, if it
  pushes one (each \<^verbatim>\<open>continue\<close> and a missing profile push nothing), and the world after
  its requests to the store. Both lookups destructure \<^verbatim>\<open>data\<close> only, so an error of
  either is an absent value.
\<close>

definition conv_step :: "world \<Rightarrow> uuid \<Rightarrow> request_row \<Rightarrow> conversation option \<times> world" where
  "conv_step w uid request =
     (let isRequester = (requester_id request = uid);
          isSkillOwner = (skills_user_id request = Some uid)
      in if \<not> isRequester \<and> \<not> isSkillOwner then (None, w)
         else
           let otherUserId = (if isRequester then skills_user_id request
                              else Some (requester_id request))
           in (case otherUserId of
                None \<Rightarrow> (None, w)
              | Some other \<Rightarrow>
                  if other = [] then (None, w)
                  else
                    let (p, w1) = select_profile w other;
                        (l, w2) = select_last_message w1 (id_req request);
                        lastMsg = data_of_maybe l
                    in (case data_of p of
                         None \<Rightarrow> (None, w2)
                       | Some prof \<Rightarrow>
                           (Some \<lparr>id_conv = id_req request,
                                  participant_id = id_profile prof,
                                  participant_name =
                                    or_else (full_name prof) ''Unknown User'',
                                  participant_avatar =
                                    or_else (avatar_url prof) [],
                                  lastMessage = map_option content lastMsg,
                                  lastMessageTime = map_option created_at lastMsg,
                                  barter_request_id_conv = Some (id_req request)\<rparr>, w2))))"

fun conv_loop ::
  "world \<Rightarrow> uuid \<Rightarrow> request_row list \<Rightarrow> conversation list \<Rightarrow> conversation list \<times> world" where
  "conv_loop w uid [] convList = (convList, w)"
| "conv_loop w uid (request # rest) convList =
     (case conv_step w uid request of
        (None, w') \<Rightarrow> conv_loop w' uid rest convList
      | (Some c, w') \<Rightarrow> conv_loop w' uid rest (convList @ [c]))"

text \<open>The \<^verbatim>\<open>catch\<close> logs and notifies and does not rethrow; the \<^verbatim>\<open>finally\<close> clears
  \<open>loading\<close> on both paths. \<^verbatim>\<open>setConversations\<close> is called on the success path only.\<close>

definition fetchConversations :: "world \<Rightarrow> world" where
  "fetchConversations w =
     (case currentUserId w of
        None \<Rightarrow> w
      | Some uid \<Rightarrow>
          if uid = [] then w
          else
            (case select_barter_requests w of
              (Inl e, w1) \<Rightarrow>
                w1\<lparr>console := console w1 @ [''Error fetching conversations:''],
                   toasts := toasts w1 @ [''Failed to load conversations''],
                   loading := False\<rparr>
            | (Inr barterRequests, w1) \<Rightarrow>
                (case conv_loop w1 uid barterRequests [] of
                   (convList, w2) \<Rightarrow> w2\<lparr>conversations := convList, loading := False\<rparr>)))"

subsection \<open>fetchMessages\<close>

definition fetchMessages :: "world \<Rightarrow> uuid \<Rightarrow> world" where
  "fetchMessages w barterRequestId =
     (case select_messages w barterRequestId of
        (Inl e, w1) \<Rightarrow>
          w1\<lparr>console := console w1 @ [''Error fetching messages:''],
             toasts := toasts w1 @ [''Failed to load messages'']\<rparr>
      | (Inr rows, w1) \<Rightarrow> w1\<lparr>messages := (messages w1)(barterRequestId \<mapsto> rows)\<rparr>)"

subsection \<open>sendMessage\<close>

text \<open>The answer of the update is awaited and dropped: its error is neither thrown nor
  logged. An error of the insert is logged, notified and thrown again.\<close>

definition sendMessage :: "world \<Rightarrow> uuid \<Rightarrow> js_string \<Rightarrow> unit outcome \<times> world" where
  "sendMessage w barterRequestId text =
     (case currentUserId w of
        None \<Rightarrow> (Returned (), w)
      | Some uid \<Rightarrow>
          if uid = [] \<or> trim text = [] then (Returned (), w)
          else
            (case insert_message w barterRequestId uid (trim text) of
              (Inl e, w1) \<Rightarrow>
                (Thrown e, w1\<lparr>console := console w1 @ [''Error sending message:''],
                              toasts := toasts w1 @ [''Failed to send message'']\<rparr>)
            | (Inr m, w1) \<Rightarrow>
                (Returned (), snd (update_barter_request w1 barterRequestId (now w1)))))"

subsection \<open>handleSendMessage (the chat page)\<close>

definition MAX_MESSAGE_LENGTH :: nat where
  "MAX_MESSAGE_LENGTH = 2000"

text \<open>The handler gets the selected conversation and the text of the input field, and
  gives back the text of the input field (cleared after a send that returned) and the world.\<close>

definition handleSendMessage :: "world \<Rightarrow> uuid option \<Rightarrow> js_string \<Rightarrow> js_string \<times> world" where
  "handleSendMessage w selectedConversation message =
     (case selectedConversation of
        None \<Rightarrow> (message, w)
      | Some sel \<Rightarrow>
          if sel = [] \<or> trim message = [] then (message, w)
          else if length (trim message) > MAX_MESSAGE_LENGTH
          then (message, w\<lparr>toasts := toasts w @ [''Message too long. Maximum 2000 characters.'']\<rparr>)
          else
            (case sendMessage w sel message of
              (Returned u, w1) \<Rightarrow> ([], w1)
            | (Thrown e, w1) \<Rightarrow> (message, w1\<lparr>console := console w1 @ [''Failed to send message:'']\<rparr>)))"

subsection \<open>getOrCreateConversation\<close>

text \<open>The lookup destructures \<^verbatim>\<open>data\<close> only: an error of the lookup is an absent row.\<close>

definition getOrCreateConversation :: "world \<Rightarrow> uuid \<Rightarrow> uuid option \<Rightarrow> uuid option \<times> world" where
  "getOrCreateConversation w otherUserId offeredSkillId =
     (case currentUserId w of
        None \<Rightarrow> (None, w)
      | Some uid \<Rightarrow>
          if uid = [] \<or> uid = otherUserId then (None, w)
          else
            (case select_request_of_requester w uid of
              (e, w1) \<Rightarrow>
                (case data_of_maybe e of
                   Some existing \<Rightarrow> (Some existing, fetchConversations w1)
                 | None \<Rightarrow>
                     (case offeredSkillId of
                        None \<Rightarrow>
                          (None, w1\<lparr>toasts := toasts w1 @ [''Please select a skill to offer first'']\<rparr>)
                      | Some offered \<Rightarrow>
                          if offered = []
                          then (None, w1\<lparr>toasts := toasts w1 @ [''Please select a skill to offer first'']\<rparr>)
                          else
                            (case insert_barter_request w1 uid offered offered ''pending'' of
                              (Inl err, w2) \<Rightarrow>
                                (None, w2\<lparr>console := console w2 @ [''Error creating conversation:''],
                                          toasts := toasts w2 @ [''Failed to start conversation'']\<rparr>)
                            | (Inr newId, w2) \<Rightarrow> (Some newId, fetchConversations w2))))))"

subsection \<open>The subscription to inserts of messages\<close>

text \<open>The updater passed to \<^verbatim>\<open>setMessages\<close>: \<^verbatim>\<open>prev[requestId] || []\<close>, the test
  \<^verbatim>\<open>some(m => m.id === newMessage.id)\<close>, and the new message put at the end.\<close>

definition merge_message ::
  "(uuid \<Rightarrow> message list option) \<Rightarrow> uuid \<Rightarrow> message \<Rightarrow> (uuid \<Rightarrow> message list option)" where
  "merge_message prev requestId newMessage =
     (let existingMessages = or_empty (prev requestId);
          messageExists = list_ex (\<lambda>m. id_msg m = id_msg newMessage) existingMessages
      in if messageExists then prev
         else prev(requestId \<mapsto> existingMessages @ [newMessage]))"

definition on_message_insert :: "world \<Rightarrow> message \<Rightarrow> world" where
  "on_message_insert w newMessage =
     (case barter_request_id newMessage of
        None \<Rightarrow> w
      | Some requestId \<Rightarrow>
          if requestId = [] then w
          else fetchConversations (w\<lparr>messages := merge_message (messages w) requestId newMessage\<rparr>))"

section \<open>Vocabulary of the statements\<close>

text \<open>
  The other participant the loop of \<^verbatim>\<open>fetchConversations\<close> goes on with: its
  \<^verbatim>\<open>otherUserId\<close> when the user is requester or skill owner, nothing when the first
  \<^verbatim>\<open>continue\<close> is taken.
\<close>

definition counterpart :: "uuid \<Rightarrow> request_row \<Rightarrow> uuid option" where
  "counterpart uid request =
     (if requester_id request = uid then skills_user_id request
      else if skills_user_id request = Some uid then Some (requester_id request)
      else None)"

text \<open>A request passes every test of the loop: the user is involved, the other
  participant's id is there, and the store answers the lookup of the profile with one row.\<close>

definition resolves :: "world \<Rightarrow> uuid \<Rightarrow> request_row \<Rightarrow> bool" where
  "resolves w uid request =
     (case counterpart uid request of
        None \<Rightarrow> False
      | Some other \<Rightarrow> other \<noteq> [] \<and> data_of (fst (select_profile w other)) \<noteq> None)"

section \<open>Concrete worlds and events\<close>

text \<open>A signed-in user \<open>A\<close> in front of an empty, reachable store.\<close>

definition w_empty :: world where
  "w_empty = \<lparr>skills = [], barter_requests = [], messages_table = [], profiles_public = [],
     fails = (\<lambda>c. False), fresh_id = (\<lambda>n. replicate (Suc n) CHR ''x''), issued = 0, now = 0,
     calls = [], toasts = [], console = [], conversations = [], messages = Map.empty,
     currentUserId = Some ''A'', loading = True\<rparr>"

definition msg1 :: message where
  "msg1 = \<lparr>id_msg = ''m1'', sender_id = ''B'', content = [0x68, 0x69], created_at = 5,
           barter_request_id = Some ''r1''\<rparr>"

text \<open>User \<open>A\<close> has sent three requests; the skill that \<open>r2\<close> asks for is gone.\<close>

definition w_three :: world where
  "w_three = \<lparr>
     skills = [\<lparr>id_skill = ''s1'', user_id = ''B''\<rparr>, \<lparr>id_skill = ''s3'', user_id = ''C''\<rparr>],
     barter_requests =
       [\<lparr>id_req = ''r1'', requester_id = ''A'', requested_skill_id = ''s1'',
         offered_skill_id = ''sA'', status = ''pending'', updated_at = 1\<rparr>,
        \<lparr>id_req = ''r2'', requester_id = ''A'', requested_skill_id = ''s2'',
         offered_skill_id = ''sA'', status = ''pending'', updated_at = 2\<rparr>,
        \<lparr>id_req = ''r3'', requester_id = ''A'', requested_skill_id = ''s3'',
         offered_skill_id = ''sA'', status = ''pending'', updated_at = 3\<rparr>],
     messages_table = [],
     profiles_public =
       [\<lparr>id_profile = ''B'', full_name = Some ''Bea'', avatar_url = None\<rparr>,
        \<lparr>id_profile = ''C'', full_name = None, avatar_url = None\<rparr>],
     fails = (\<lambda>c. False), fresh_id = (\<lambda>n. replicate (Suc n) CHR ''x''), issued = 0, now = 4,
     calls = [], toasts = [], console = [], conversations = [], messages = Map.empty,
     currentUserId = Some ''A'', loading = True\<rparr>"

text \<open>User \<open>A\<close> sent \<open>r1\<close> and owns the skill that \<open>r5\<close> asks for; \<open>r4\<close> is between
  \<open>D\<close> and \<open>C\<close>.\<close>

definition w_mixed :: world where
  "w_mixed = \<lparr>
     skills = [\<lparr>id_skill = ''s1'', user_id = ''B''\<rparr>, \<lparr>id_skill = ''s3'', user_id = ''C''\<rparr>,
               \<lparr>id_skill = ''sA'', user_id = ''A''\<rparr>],
     barter_requests =
       [\<lparr>id_req = ''r1'', requester_id = ''A'', requested_skill_id = ''s1'',
         offered_skill_id = ''sA'', status = ''pending'', updated_at = 1\<rparr>,
        \<lparr>id_req = ''r4'', requester_id = ''D'', requested_skill_id = ''s3'',
         offered_skill_id = ''sD'', status = ''pending'', updated_at = 2\<rparr>,
        \<lparr>id_req = ''r5'', requester_id = ''D'', requested_skill_id = ''sA'',
         offered_skill_id = ''sD'', status = ''accepted'', updated_at = 3\<rparr>],
     messages_table = [],
     profiles_public =
       [\<lparr>id_profile = ''B'', full_name = Some ''Bea'', avatar_url = None\<rparr>,
        \<lparr>id_profile = ''C'', full_name = None, avatar_url = None\<rparr>,
        \<lparr>id_profile = ''D'', full_name = Some ''Dan'', avatar_url = Some ''d.png''\<rparr>],
     fails = (\<lambda>c. False), fresh_id = (\<lambda>n. replicate (Suc n) CHR ''x''), issued = 0, now = 4,
     calls = [], toasts = [], console = [], conversations = [], messages = Map.empty,
     currentUserId = Some ''A'', loading = True\<rparr>"

text \<open>The store is unreachable while the list of user \<open>A\<close> holds a conversation from an
  earlier derivation.\<close>

definition w_down :: world where
  "w_down = \<lparr>skills = [], barter_requests = [], messages_table = [], profiles_public = [],
     fails = (\<lambda>c. True), fresh_id = (\<lambda>n. replicate (Suc n) CHR ''x''), issued = 0, now = 9,
     calls = [], toasts = [], console = [],
     conversations = [\<lparr>id_conv = ''r1'', participant_id = ''B'', participant_name = ''Bea'',
        participant_avatar = [], lastMessage = None, lastMessageTime = None,
        barter_request_id_conv = Some ''r1''\<rparr>],
     messages = Map.empty, currentUserId = Some ''A'', loading = True\<rparr>"

text \<open>Texts for the input field: 2000 letters, 2001 letters, 2000 letters followed by a
  space, and three spaces.\<close>

definition letters_2000 :: js_string where
  "letters_2000 = replicate 2000 0x61"

definition letters_2001 :: js_string where
  "letters_2001 = replicate 2001 0x61"

definition padded_2001 :: js_string where
  "padded_2001 = replicate 2000 0x61 @ [0x20]"

definition blanks :: js_string where
  "blanks = replicate 3 0x20"

text \<open>User \<open>A\<close> and one request; the store takes inserts and refuses every update.\<close>

definition w_no_update :: world where
  "w_no_update = \<lparr>
     skills = [\<lparr>id_skill = ''s1'', user_id = ''B''\<rparr>],
     barter_requests =
       [\<lparr>id_req = ''r1'', requester_id = ''A'', requested_skill_id = ''s1'',
         offered_skill_id = ''sA'', status = ''pending'', updated_at = 1\<rparr>],
     messages_table = [], profiles_public = [],
     fails = (\<lambda>c. case c of UpdateBarterRequest r t \<Rightarrow> True | _ \<Rightarrow> False),
     fresh_id = (\<lambda>n. replicate (Suc n) CHR ''x''), issued = 0, now = 7,
     calls = [], toasts = [], console = [], conversations = [], messages = Map.empty,
     currentUserId = Some ''A'', loading = False\<rparr>"

text \<open>User \<open>A\<close> has sent two requests, as the swap dialog lets a user do.\<close>

definition w_two :: world where
  "w_two = \<lparr>
     skills = [\<lparr>id_skill = ''s1'', user_id = ''B''\<rparr>, \<lparr>id_skill = ''s3'', user_id = ''C''\<rparr>,
               \<lparr>id_skill = ''sA'', user_id = ''A''\<rparr>],
     barter_requests =
       [\<lparr>id_req = ''r1'', requester_id = ''A'', requested_skill_id = ''s1'',
         offered_skill_id = ''sA'', status = ''pending'', updated_at = 1\<rparr>,
        \<lparr>id_req = ''r2'', requester_id = ''A'', requested_skill_id = ''s3'',
         offered_skill_id = ''sA'', status = ''pending'', updated_at = 2\<rparr>],
     messages_table = [],
     profiles_public =
       [\<lparr>id_profile = ''B'', full_name = Some ''Bea'', avatar_url = None\<rparr>,
        \<lparr>id_profile = ''C'', full_name = None, avatar_url = None\<rparr>],
     fails = (\<lambda>c. False), fresh_id = (\<lambda>n. replicate (Suc n) CHR ''x''), issued = 0, now = 4,
     calls = [], toasts = [], console = [], conversations = [], messages = Map.empty,
     currentUserId = Some ''A'', loading = False\<rparr>"

text \<open>Two more messages of the thread \<open>r1\<close>: one created before \<open>msg1\<close>, one after.\<close>

definition msg0 :: message where
  "msg0 = \<lparr>id_msg = ''m0'', sender_id = ''A'', content = [0x79, 0x6F], created_at = 3,
           barter_request_id = Some ''r1''\<rparr>"

definition msg2 :: message where
  "msg2 = \<lparr>id_msg = ''m2'', sender_id = ''A'', content = [0x6F, 0x6B], created_at = 7,
           barter_request_id = Some ''r1''\<rparr>"

text \<open>The table holds \<open>msg1\<close>, then \<open>msg0\<close>, then a message of the thread \<open>r9\<close>.\<close>

definition w_history :: world where
  "w_history = \<lparr>skills = [], barter_requests = [],
     messages_table = [msg1, msg0, \<lparr>id_msg = ''m9'', sender_id = ''C'', content = [0x68],
                                    created_at = 4, barter_request_id = Some ''r9''\<rparr>],
     profiles_public = [],
     fails = (\<lambda>c. False), fresh_id = (\<lambda>n. replicate (Suc n) CHR ''x''), issued = 0, now = 8,
     calls = [], toasts = [], console = [], conversations = [], messages = Map.empty,
     currentUserId = Some ''A'', loading = False\<rparr>"

section \<open>Frame and shape of the operations\<close>

subsection \<open>The loop of fetchConversations\<close>

lemma select_profile_snd: "snd (select_profile w u) = w\<lparr>calls := calls w @ [SelectProfile u]\<rparr>"
  by (simp add: select_profile_def log_call_def)

lemma select_last_message_snd:
  "snd (select_last_message w rid) = w\<lparr>calls := calls w @ [SelectLastMessage rid]\<rparr>"
  by (simp add: select_last_message_def log_call_def)

lemma conv_step_skip:
  "requester_id r \<noteq> uid \<Longrightarrow> skills_user_id r \<noteq> Some uid \<Longrightarrow> conv_step w uid r = (None, w)"
  by (simp add: conv_step_def)

lemma conv_step_lookup:
  assumes "requester_id r = uid \<or> skills_user_id r = Some uid"
    and "(if requester_id r = uid then skills_user_id r else Some (requester_id r)) = Some other"
    and "other \<noteq> []"
  shows "conv_step w uid r =
    (map_option (\<lambda>prof. \<lparr>id_conv = id_req r, participant_id = id_profile prof,
         participant_name = or_else (full_name prof) ''Unknown User'',
         participant_avatar = or_else (avatar_url prof) [],
         lastMessage = map_option content (data_of_maybe (fst (select_last_message w (id_req r)))),
         lastMessageTime = map_option created_at (data_of_maybe (fst (select_last_message w (id_req r)))),
         barter_request_id_conv = Some (id_req r)\<rparr>) (data_of (fst (select_profile w other))),
     w\<lparr>calls := calls w @ [SelectProfile other, SelectLastMessage (id_req r)]\<rparr>)"
proof -
  obtain p w1 where p: "select_profile w other = (p, w1)" by (cases "select_profile w other")
  obtain l w2 where l: "select_last_message w1 (id_req r) = (l, w2)"
    by (cases "select_last_message w1 (id_req r)")
  have w1: "w1 = w\<lparr>calls := calls w @ [SelectProfile other]\<rparr>"
    using select_profile_snd[of w other] p by simp
  have w2: "w2 = w\<lparr>calls := calls w @ [SelectProfile other, SelectLastMessage (id_req r)]\<rparr>"
    using select_last_message_snd[of w1 "id_req r"] l by (simp add: w1)
  have "fst (select_last_message w1 (id_req r)) = fst (select_last_message w (id_req r))"
    by (simp add: w1 select_last_message_def)
  then have l': "l = fst (select_last_message w (id_req r))"
    using l by simp
  have "conv_step w uid r = (case data_of p of None \<Rightarrow> (None, w2) | Some prof \<Rightarrow>
     (Some \<lparr>id_conv = id_req r, participant_id = id_profile prof,
         participant_name = or_else (full_name prof) ''Unknown User'',
         participant_avatar = or_else (avatar_url prof) [],
         lastMessage = map_option content (data_of_maybe l),
         lastMessageTime = map_option created_at (data_of_maybe l),
         barter_request_id_conv = Some (id_req r)\<rparr>, w2))"
    using assms(2,3) assms(1) unfolding conv_step_def Let_def by (auto simp: p l)
  then show ?thesis using p by (simp add: w2 l' split: option.split)
qed


lemma conv_step_snd:
  "\<exists>cs. snd (conv_step w uid r) = w\<lparr>calls := calls w @ cs\<rparr>"
proof (cases "requester_id r = uid \<or> skills_user_id r = Some uid")
  case False
  then have "conv_step w uid r = (None, w)" by (simp add: conv_step_skip)
  then have "snd (conv_step w uid r) = w\<lparr>calls := calls w @ []\<rparr>" by simp
  then show ?thesis by blast
next
  case True
  let ?o = "if requester_id r = uid then skills_user_id r else Some (requester_id r)"
  show ?thesis
  proof (cases "truthy ?o")
    case False
    then have "conv_step w uid r = (None, w)"
      using True by (cases "skills_user_id r") (auto simp: conv_step_def)
    then have "snd (conv_step w uid r) = w\<lparr>calls := calls w @ []\<rparr>" by simp
    then show ?thesis by blast
  next
    case t: True
    then obtain other where "?o = Some other" "other \<noteq> []"
      by (cases ?o) auto
    from conv_step_lookup[OF True this, of w]
    have "snd (conv_step w uid r) =
       w\<lparr>calls := calls w @ [SelectProfile other, SelectLastMessage (id_req r)]\<rparr>"
      by (rule arg_cong[where f=snd, THEN trans]) simp
    then show ?thesis by blast
  qed
qed

lemma select_profile_calls [simp]:
  "fst (select_profile (w\<lparr>calls := cs\<rparr>) u) = fst (select_profile w u)"
  by (simp add: select_profile_def)

lemma select_last_message_calls [simp]:
  "fst (select_last_message (w\<lparr>calls := cs\<rparr>) rid) = fst (select_last_message w rid)"
  by (simp add: select_last_message_def)

lemma conv_step_none:
  assumes "requester_id r = uid \<or> skills_user_id r = Some uid"
    and "\<not> truthy (if requester_id r = uid then skills_user_id r else Some (requester_id r))"
  shows "conv_step w uid r = (None, w)"
  using assms by (cases "skills_user_id r") (auto simp: conv_step_def)

lemma conv_step_fst_calls:
  "fst (conv_step (w\<lparr>calls := cs\<rparr>) uid r) = fst (conv_step w uid r)"
proof (cases "requester_id r = uid \<or> skills_user_id r = Some uid")
  case False
  then show ?thesis by (simp add: conv_step_skip)
next
  case True
  let ?o = "if requester_id r = uid then skills_user_id r else Some (requester_id r)"
  show ?thesis
  proof (cases "truthy ?o")
    case False
    then show ?thesis using True by (simp add: conv_step_none)
  next
    case t: True
    then obtain other where o: "?o = Some other" "other \<noteq> []"
      by (cases ?o) auto
    show ?thesis
      by (simp add: conv_step_lookup[OF True o])
  qed
qed

lemma conv_loop_fst:
  "fst (conv_loop w uid rs acc) = acc @ List.map_filter (\<lambda>r. fst (conv_step w uid r)) rs"
proof (induction rs arbitrary: w acc)
  case Nil
  show ?case by (simp add: List.map_filter_simps)
next
  case (Cons r rs)
  obtain c w' where st: "conv_step w uid r = (c, w')" by (cases "conv_step w uid r")
  obtain cs where w': "w' = w\<lparr>calls := calls w @ cs\<rparr>"
    using conv_step_snd[of w uid r] st by auto
  have c: "fst (conv_step w uid r) = c" using st by simp
  show ?case
    using Cons.IH[of w'] c
    by (cases c) (simp_all add: st w' conv_step_fst_calls List.map_filter_simps)
qed

lemma conv_loop_snd: "\<exists>cs. snd (conv_loop w uid rs acc) = w\<lparr>calls := calls w @ cs\<rparr>"
proof (induction rs arbitrary: w acc)
  case Nil
  have "snd (conv_loop w uid [] acc) = w\<lparr>calls := calls w @ []\<rparr>" by simp
  then show ?case by blast
next
  case (Cons r rs)
  obtain c w' where st: "conv_step w uid r = (c, w')" by (cases "conv_step w uid r")
  obtain cs where w': "w' = w\<lparr>calls := calls w @ cs\<rparr>"
    using conv_step_snd[of w uid r] st by auto
  have step: "snd (conv_loop w uid (r # rs) acc) =
      snd (conv_loop w' uid rs (case c of None \<Rightarrow> acc | Some x \<Rightarrow> acc @ [x]))"
    by (cases c) (simp_all add: st)
  obtain cs' where "snd (conv_loop w' uid rs (case c of None \<Rightarrow> acc | Some x \<Rightarrow> acc @ [x]))
      = w'\<lparr>calls := calls w' @ cs'\<rparr>"
    using Cons.IH by blast
  then have "snd (conv_loop w' uid rs (case c of None \<Rightarrow> acc | Some x \<Rightarrow> acc @ [x]))
      = w\<lparr>calls := calls w @ (cs @ cs')\<rparr>"
    by (simp add: w')
  then have "snd (conv_loop w uid (r # rs) acc) = w\<lparr>calls := calls w @ (cs @ cs')\<rparr>"
    by (simp only: step)
  then show ?case by blast
qed

lemma fetchConversations_no_user:
  "\<not> truthy (currentUserId w) \<Longrightarrow> fetchConversations w = w"
  by (cases "currentUserId w") (simp_all add: fetchConversations_def)

lemma fetchConversations_fails:
  assumes "currentUserId w = Some uid" "uid \<noteq> []" "fails w SelectBarterRequests"
  shows "fetchConversations w =
     w\<lparr>calls := calls w @ [SelectBarterRequests],
       console := console w @ [''Error fetching conversations:''],
       toasts := toasts w @ [''Failed to load conversations''],
       loading := False\<rparr>"
  using assms by (simp add: fetchConversations_def select_barter_requests_def log_call_def)

lemma fetchConversations_ok:
  assumes "currentUserId w = Some uid" "uid \<noteq> []" "\<not> fails w SelectBarterRequests"
  shows "\<exists>cs. fetchConversations w =
     w\<lparr>calls := calls w @ cs,
       conversations := List.map_filter (\<lambda>r. fst (conv_step w uid r)) (rows_of_barter_requests w),
       loading := False\<rparr>"
proof -
  let ?w1 = "w\<lparr>calls := calls w @ [SelectBarterRequests]\<rparr>"
  let ?rows = "rows_of_barter_requests w"
  obtain cv w2 where loop: "conv_loop ?w1 uid ?rows [] = (cv, w2)"
    by (cases "conv_loop ?w1 uid ?rows []")
  have cv: "cv = List.map_filter (\<lambda>r. fst (conv_step w uid r)) ?rows"
    using conv_loop_fst[of ?w1 uid ?rows "[]"] loop by (simp add: conv_step_fst_calls)
  obtain cs where w2: "w2 = ?w1\<lparr>calls := calls ?w1 @ cs\<rparr>"
    using conv_loop_snd[of ?w1 uid ?rows "[]"] loop by auto
  have "fetchConversations w = w2\<lparr>conversations := cv, loading := False\<rparr>"
    using assms loop
    by (simp add: fetchConversations_def select_barter_requests_def log_call_def)
  then have "fetchConversations w =
     w\<lparr>calls := calls w @ (SelectBarterRequests # cs), conversations := cv, loading := False\<rparr>"
    by (simp add: w2)
  then show ?thesis unfolding cv by blast
qed

lemma fetchConversations_frame:
  "\<exists>cs co ts cv l. fetchConversations w =
     w\<lparr>calls := cs, toasts := ts, console := co, conversations := cv, loading := l\<rparr>"
proof (cases "truthy (currentUserId w)")
  case False
  then have "fetchConversations w = w\<lparr>calls := calls w, toasts := toasts w, console := console w,
      conversations := conversations w, loading := loading w\<rparr>"
    by (simp add: fetchConversations_no_user)
  then show ?thesis by blast
next
  case True
  then obtain uid where u: "currentUserId w = Some uid" "uid \<noteq> []"
    by (cases "currentUserId w") auto
  show ?thesis
  proof (cases "fails w SelectBarterRequests")
    case True
    have "fetchConversations w = w\<lparr>calls := calls w @ [SelectBarterRequests],
       toasts := toasts w @ [''Failed to load conversations''],
       console := console w @ [''Error fetching conversations:''],
       conversations := conversations w, loading := False\<rparr>"
      by (simp add: fetchConversations_fails[OF u True])
    then show ?thesis by blast
  next
    case False
    from fetchConversations_ok[OF u False] obtain cs where
      "fetchConversations w = w\<lparr>calls := calls w @ cs,
       conversations := List.map_filter (\<lambda>r. fst (conv_step w uid r)) (rows_of_barter_requests w),
       loading := False\<rparr>" by blast
    then have "fetchConversations w = w\<lparr>calls := calls w @ cs, toasts := toasts w,
       console := console w,
       conversations := List.map_filter (\<lambda>r. fst (conv_step w uid r)) (rows_of_barter_requests w),
       loading := False\<rparr>" by simp
    then show ?thesis by blast
  qed
qed

lemma fetchConversations_messages [simp]: "messages (fetchConversations w) = messages w"
proof -
  obtain cs co ts cv l where "fetchConversations w =
     w\<lparr>calls := cs, toasts := ts, console := co, conversations := cv, loading := l\<rparr>"
    using fetchConversations_frame by blast
  then show ?thesis by simp
qed

lemma conv_step_resolves: "fst (conv_step w uid r) \<noteq> None \<longleftrightarrow> resolves w uid r"
proof (cases "requester_id r = uid \<or> skills_user_id r = Some uid")
  case False
  then show ?thesis by (simp add: conv_step_skip resolves_def counterpart_def)
next
  case True
  let ?o = "if requester_id r = uid then skills_user_id r else Some (requester_id r)"
  have cp: "counterpart uid r = ?o" using True by (auto simp: counterpart_def)
  show ?thesis
  proof (cases "truthy ?o")
    case False
    then have "conv_step w uid r = (None, w)" using True by (simp add: conv_step_none)
    moreover have "\<not> resolves w uid r"
      using False unfolding resolves_def cp by (cases ?o) auto
    ultimately show ?thesis by simp
  next
    case t: True
    then obtain other where o: "?o = Some other" "other \<noteq> []"
      by (cases ?o) auto
    have "resolves w uid r \<longleftrightarrow> data_of (fst (select_profile w other)) \<noteq> None"
      unfolding resolves_def cp o by (simp add: o)
    then show ?thesis
      by (simp add: conv_step_lookup[OF True o])
  qed
qed

lemma conv_step_id:
  assumes "fst (conv_step w uid r) = Some c"
  shows "id_conv c = id_req r"
proof -
  have inv: "requester_id r = uid \<or> skills_user_id r = Some uid"
  proof (rule ccontr)
    assume "\<not> ?thesis"
    then have "conv_step w uid r = (None, w)" by (simp add: conv_step_skip)
    then show False using assms by simp
  qed
  let ?o = "if requester_id r = uid then skills_user_id r else Some (requester_id r)"
  have "truthy ?o"
  proof (rule ccontr)
    assume "\<not> ?thesis"
    then have "conv_step w uid r = (None, w)" by (rule conv_step_none[OF inv])
    then show False using assms by simp
  qed
  then obtain other where o: "?o = Some other" "other \<noteq> []"
    by (cases ?o) auto
  show ?thesis using assms by (auto simp: conv_step_lookup[OF inv o])
qed

lemma map_filter_ids:
  assumes "\<And>r c. f r = Some c \<Longrightarrow> g c = h r"
  shows "map g (List.map_filter f rs) = map h (filter (\<lambda>r. f r \<noteq> None) rs)"
  using assms by (induction rs) (auto simp: List.map_filter_simps split: option.splits)

lemma fetchConversations_ids:
  assumes "currentUserId w = Some uid" "uid \<noteq> []" "\<not> fails w SelectBarterRequests"
  shows "map id_conv (conversations (fetchConversations w)) =
         map id_req (filter (resolves w uid) (rows_of_barter_requests w))"
proof -
  obtain cs where "fetchConversations w =
     w\<lparr>calls := calls w @ cs,
       conversations := List.map_filter (\<lambda>r. fst (conv_step w uid r)) (rows_of_barter_requests w),
       loading := False\<rparr>"
    using fetchConversations_ok[OF assms] by blast
  then have cv: "conversations (fetchConversations w) =
      List.map_filter (\<lambda>r. fst (conv_step w uid r)) (rows_of_barter_requests w)"
    by simp
  have res: "(\<lambda>r. fst (conv_step w uid r) \<noteq> None) = resolves w uid"
    by (rule ext) (rule conv_step_resolves)
  have "map id_conv (List.map_filter (\<lambda>r. fst (conv_step w uid r)) (rows_of_barter_requests w)) =
        map id_req (filter (\<lambda>r. fst (conv_step w uid r) \<noteq> None) (rows_of_barter_requests w))"
    by (rule map_filter_ids) (rule conv_step_id)
  then show ?thesis by (simp only: cv res)
qed

subsection \<open>The merge of an inserted message\<close>

lemma merge_message_thread:
  "merge_message prev rid e rid =
     (if id_msg e \<in> id_msg ` set (or_empty (prev rid)) then prev rid
      else Some (or_empty (prev rid) @ [e]))"
  by (cases "prev rid") (auto simp: merge_message_def Let_def list_ex_iff intro: rev_image_eqI)

lemma merge_message_twice:
  "merge_message (merge_message prev rid e) rid e = merge_message prev rid e"
proof -
  have "list_ex (\<lambda>m. id_msg m = id_msg e)
          (or_empty (merge_message prev rid e rid))"
    by (cases "prev rid") (auto simp: merge_message_def Let_def list_ex_iff)
  then show ?thesis
    by (subst merge_message_def) (simp add: Let_def)
qed

lemma on_message_insert_messages:
  assumes "barter_request_id e = Some rid" "rid \<noteq> []"
  shows "messages (on_message_insert w e) = merge_message (messages w) rid e"
  using assms by (simp add: on_message_insert_def)


subsection \<open>Trimming and sending\<close>

lemma ws_space: "is_white_space 0x20"
  by (simp add: is_white_space_def)

lemma ws_a: "\<not> is_white_space 0x61"
  by (simp add: is_white_space_def)

lemma trim_letters: "trim (replicate n 0x61) = replicate n 0x61"
  by (simp add: trim_def ws_a)

lemma trim_letters_space_Suc: "trim (replicate (Suc n) 0x61 @ [0x20]) = replicate (Suc n) 0x61"
proof -
  have "dropWhile is_white_space (replicate (Suc n) 0x61 @ [0x20]) = replicate (Suc n) 0x61 @ [0x20]"
    by (simp add: ws_a)
  moreover have "dropWhile is_white_space (rev (replicate (Suc n) 0x61 @ [0x20])) = replicate (Suc n) 0x61"
    by (simp add: ws_a ws_space del: replicate.simps)
  ultimately show ?thesis by (simp add: trim_def del: replicate.simps)
qed

lemma trim_letters_space: "0 < n \<Longrightarrow> trim (replicate n 0x61 @ [0x20]) = replicate n 0x61"
  using trim_letters_space_Suc[of "n - 1"] by simp

lemma trim_spaces: "trim (replicate n 0x20) = []"
  by (simp add: trim_def ws_space)

lemma sendMessage_reject:
  "\<not> truthy (currentUserId w) \<or> trim text = [] \<Longrightarrow> sendMessage w rid text = (Returned (), w)"
  by (cases "currentUserId w") (auto simp: sendMessage_def)

lemma sendMessage_insert_fails:
  assumes "currentUserId w = Some uid" "uid \<noteq> []" "trim text \<noteq> []"
    and "fails w (InsertMessage rid uid (trim text))"
  shows "sendMessage w rid text =
     (Thrown StoreUnreachable,
      w\<lparr>calls := calls w @ [InsertMessage rid uid (trim text)],
        console := console w @ [''Error sending message:''],
        toasts := toasts w @ [''Failed to send message'']\<rparr>)"
  using assms by (simp add: sendMessage_def insert_message_def log_call_def)

lemma sendMessage_inserts:
  assumes "currentUserId w = Some uid" "uid \<noteq> []" "trim text \<noteq> []"
    and "\<not> fails w (InsertMessage rid uid (trim text))"
  shows "sendMessage w rid text =
     (Returned (),
      w\<lparr>calls := calls w @ [InsertMessage rid uid (trim text), UpdateBarterRequest rid (now w)],
        messages_table := messages_table w @
          [\<lparr>id_msg = fresh_id w (issued w), sender_id = uid, content = trim text,
            created_at = now w, barter_request_id = Some rid\<rparr>],
        issued := Suc (issued w),
        barter_requests :=
          (if fails w (UpdateBarterRequest rid (now w)) then barter_requests w
           else map (\<lambda>r. if id_req r = rid then r\<lparr>updated_at := now w\<rparr> else r) (barter_requests w))\<rparr>)"
  using assms
  by (simp add: sendMessage_def insert_message_def update_barter_request_def log_call_def Let_def)


subsection \<open>What fetchConversations leaves alone\<close>

lemma fetchConversations_store [simp]:
  "barter_requests (fetchConversations w) = barter_requests w"
  "messages_table (fetchConversations w) = messages_table w"
  "skills (fetchConversations w) = skills w"
  "profiles_public (fetchConversations w) = profiles_public w"
  "currentUserId (fetchConversations w) = currentUserId w"
proof -
  obtain cs co ts cv l where "fetchConversations w =
     w\<lparr>calls := cs, toasts := ts, console := co, conversations := cv, loading := l\<rparr>"
    using fetchConversations_frame by blast
  then show "barter_requests (fetchConversations w) = barter_requests w"
    "messages_table (fetchConversations w) = messages_table w"
    "skills (fetchConversations w) = skills w"
    "profiles_public (fetchConversations w) = profiles_public w"
    "currentUserId (fetchConversations w) = currentUserId w"
    by simp_all
qed

subsection \<open>The branches of getOrCreateConversation\<close>

lemma select_request_of_requester_snd:
  "snd (select_request_of_requester w u) = w\<lparr>calls := calls w @ [SelectRequestOfRequester u]\<rparr>"
  by (simp add: select_request_of_requester_def log_call_def)

lemma getOrCreate_self:
  "\<not> truthy (currentUserId w) \<or> currentUserId w = Some other \<Longrightarrow>
   getOrCreateConversation w other off = (None, w)"
  by (cases "currentUserId w") (auto simp: getOrCreateConversation_def)

lemma getOrCreate_unfold:
  assumes "currentUserId w = Some uid" "uid \<noteq> []" "uid \<noteq> other"
  shows "getOrCreateConversation w other off =
     (let w1 = w\<lparr>calls := calls w @ [SelectRequestOfRequester uid]\<rparr>
      in case data_of_maybe (fst (select_request_of_requester w uid)) of
           Some existing \<Rightarrow> (Some existing, fetchConversations w1)
         | None \<Rightarrow>
             if \<not> truthy off
             then (None, w1\<lparr>toasts := toasts w1 @ [''Please select a skill to offer first'']\<rparr>)
             else (case insert_barter_request w1 uid (or_else off []) (or_else off []) ''pending'' of
                     (Inl err, w2) \<Rightarrow>
                       (None, w2\<lparr>console := console w2 @ [''Error creating conversation:''],
                                 toasts := toasts w2 @ [''Failed to start conversation'']\<rparr>)
                   | (Inr newId, w2) \<Rightarrow> (Some newId, fetchConversations w2)))"
proof -
  obtain e w1 where s: "select_request_of_requester w uid = (e, w1)"
    by (cases "select_request_of_requester w uid")
  have w1: "w1 = w\<lparr>calls := calls w @ [SelectRequestOfRequester uid]\<rparr>"
    using select_request_of_requester_snd[of w uid] s by simp
  show ?thesis
  proof (cases off)
    case None
    then show ?thesis using assms
      by (cases "data_of_maybe e") (simp_all add: getOrCreateConversation_def s w1 Let_def)
  next
    case (Some sk)
    then show ?thesis using assms
      by (cases "data_of_maybe e"; cases "sk = []")
         (simp_all add: getOrCreateConversation_def s w1 Let_def)
  qed
qed

lemma getOrCreate_existing:
  assumes "currentUserId w = Some uid" "uid \<noteq> []" "uid \<noteq> other"
    and "data_of_maybe (fst (select_request_of_requester w uid)) = Some rid"
  shows "getOrCreateConversation w other off =
     (Some rid, fetchConversations (w\<lparr>calls := calls w @ [SelectRequestOfRequester uid]\<rparr>))"
  by (simp add: getOrCreate_unfold[OF assms(1-3)] assms(4) Let_def)

lemma getOrCreate_no_skill:
  assumes "currentUserId w = Some uid" "uid \<noteq> []" "uid \<noteq> other"
    and "data_of_maybe (fst (select_request_of_requester w uid)) = None"
    and "\<not> truthy off"
  shows "getOrCreateConversation w other off =
     (None, w\<lparr>calls := calls w @ [SelectRequestOfRequester uid],
              toasts := toasts w @ [''Please select a skill to offer first'']\<rparr>)"
  by (simp add: getOrCreate_unfold[OF assms(1-3)] assms(4,5) Let_def)

lemma getOrCreate_created:
  assumes "currentUserId w = Some uid" "uid \<noteq> []" "uid \<noteq> other"
    and "data_of_maybe (fst (select_request_of_requester w uid)) = None"
    and "sk \<noteq> []" and "\<not> fails w (InsertBarterRequest uid sk sk ''pending'')"
  shows "getOrCreateConversation w other (Some sk) =
     (Some (fresh_id w (issued w)),
      fetchConversations
        (w\<lparr>calls := calls w @ [SelectRequestOfRequester uid,
                                 InsertBarterRequest uid sk sk ''pending''],
           barter_requests := barter_requests w @
             [\<lparr>id_req = fresh_id w (issued w), requester_id = uid, requested_skill_id = sk,
               offered_skill_id = sk, status = ''pending'', updated_at = now w\<rparr>],
           issued := Suc (issued w)\<rparr>))"
  using assms(5,6)
  by (simp add: getOrCreate_unfold[OF assms(1-3)] assms(4) Let_def insert_barter_request_def
      log_call_def)

lemma getOrCreate_insert_fails:
  assumes "currentUserId w = Some uid" "uid \<noteq> []" "uid \<noteq> other"
    and "data_of_maybe (fst (select_request_of_requester w uid)) = None"
    and "sk \<noteq> []" and "fails w (InsertBarterRequest uid sk sk ''pending'')"
  shows "getOrCreateConversation w other (Some sk) =
     (None,
      w\<lparr>calls := calls w @ [SelectRequestOfRequester uid,
                              InsertBarterRequest uid sk sk ''pending''],
        console := console w @ [''Error creating conversation:''],
        toasts := toasts w @ [''Failed to start conversation'']\<rparr>)"
  using assms(5,6)
  by (simp add: getOrCreate_unfold[OF assms(1-3)] assms(4) Let_def insert_barter_request_def
      log_call_def)

subsection \<open>Loading the history of a thread\<close>

lemma fetchMessages_ok:
  "\<not> fails w (SelectMessages rid) \<Longrightarrow>
   fetchMessages w rid =
     w\<lparr>calls := calls w @ [SelectMessages rid],
       messages := (messages w)(rid \<mapsto> rows_of_messages w rid)\<rparr>"
  by (simp add: fetchMessages_def select_messages_def log_call_def)

lemma fetchMessages_fails:
  "fails w (SelectMessages rid) \<Longrightarrow>
   fetchMessages w rid =
     w\<lparr>calls := calls w @ [SelectMessages rid],
       console := console w @ [''Error fetching messages:''],
       toasts := toasts w @ [''Failed to load messages'']\<rparr>"
  by (simp add: fetchMessages_def select_messages_def log_call_def)

lemma rows_of_messages_sorted: "sorted (map created_at (rows_of_messages w rid))"
  by (simp add: rows_of_messages_def)

lemma rows_of_messages_mset:
  "mset (rows_of_messages w rid) =
   mset (filter (\<lambda>m. barter_request_id m = Some rid) (messages_table w))"
  by (simp add: rows_of_messages_def)

lemma merge_message_other:
  "t \<noteq> rid \<Longrightarrow> merge_message prev rid e t = prev t"
  by (simp add: merge_message_def Let_def)

lemma on_message_insert_discard:
  "\<not> truthy (barter_request_id e) \<Longrightarrow> on_message_insert w e = w"
  by (cases "barter_request_id e") (simp_all add: on_message_insert_def)

section \<open>The claims\<close>

subsection \<open>C1: the send handler validates before any request to the store\<close>

text \<open>
  C1, as stated: a send is rejected without a request to the store exactly when the
  trimmed content is empty or the content has more than 2000 characters. It is not: the
  handler measures the trimmed content, so 2000 letters followed by a space, a content of
  2001 characters, reaches the store.
\<close>

theorem long_content_is_rejected_counterexample:
  "currentUserId w_empty = Some ''A'' \<and> length padded_2001 = 2001 \<and>
   MAX_MESSAGE_LENGTH < length padded_2001 \<and>
   calls (snd (handleSendMessage w_empty (Some ''r1'') padded_2001)) \<noteq> calls w_empty \<and>
   calls (snd (handleSendMessage w_empty (Some ''r1'') padded_2001)) =
     [InsertMessage ''r1'' ''A'' letters_2000, UpdateBarterRequest ''r1'' 0] \<and>
   map content (messages_table (snd (handleSendMessage w_empty (Some ''r1'') padded_2001))) =
     [letters_2000]"
proof -
  have t: "trim padded_2001 = replicate 2000 0x61"
    unfolding padded_2001_def by (rule trim_letters_space) simp
  have u: "currentUserId w_empty = Some ''A''" by (simp add: w_empty_def)
  have ne: "trim padded_2001 \<noteq> []" by (simp add: t)
  have ok: "\<not> fails w_empty (InsertMessage ''r1'' ''A'' (trim padded_2001))"
    by (simp add: w_empty_def)
  have s: "sendMessage w_empty ''r1'' padded_2001 =
     (Returned (),
      w_empty\<lparr>calls := calls w_empty @
          [InsertMessage ''r1'' ''A'' (trim padded_2001), UpdateBarterRequest ''r1'' (now w_empty)],
        messages_table := messages_table w_empty @
          [\<lparr>id_msg = fresh_id w_empty (issued w_empty), sender_id = ''A'',
            content = trim padded_2001, created_at = now w_empty,
            barter_request_id = Some ''r1''\<rparr>],
        issued := Suc (issued w_empty),
        barter_requests :=
          (if fails w_empty (UpdateBarterRequest ''r1'' (now w_empty)) then barter_requests w_empty
           else map (\<lambda>r. if id_req r = ''r1'' then r\<lparr>updated_at := now w_empty\<rparr> else r)
                  (barter_requests w_empty))\<rparr>)"
    by (rule sendMessage_inserts[OF u _ ne ok]) simp
  have h: "handleSendMessage w_empty (Some ''r1'') padded_2001 =
      ([], snd (sendMessage w_empty ''r1'' padded_2001))"
    by (simp add: handleSendMessage_def MAX_MESSAGE_LENGTH_def s) (simp add: t)
  have c: "calls w_empty = []" "now w_empty = 0" "messages_table w_empty = []"
    by (simp_all add: w_empty_def)
  have l: "length padded_2001 = 2001" by (simp add: padded_2001_def)
  show ?thesis
    by (simp add: h s c u l MAX_MESSAGE_LENGTH_def) (simp add: t letters_2000_def)
qed

text \<open>
  C1, amended. With a signed-in user and a selected conversation, the send handler rejects
  without any request to the store, and keeps the text in the input field, exactly when
  the trimmed content is empty (so also when the content is only white space) or the
  trimmed content has more than 2000 characters. Otherwise, and so for a trimmed content
  of exactly 2000 characters, the first request it sends is the insert of the trimmed
  content, and when the store takes the insert the message is in the table.
\<close>

theorem append_validates_trimmed_content:
  assumes "currentUserId w = Some uid" and "uid \<noteq> []" and "sel \<noteq> []"
  shows "(trim message = [] \<or> MAX_MESSAGE_LENGTH < length (trim message) \<longrightarrow>
            calls (snd (handleSendMessage w (Some sel) message)) = calls w
          \<and> messages_table (snd (handleSendMessage w (Some sel) message)) = messages_table w
          \<and> fst (handleSendMessage w (Some sel) message) = message)
       \<and> (trim message \<noteq> [] \<and> length (trim message) \<le> MAX_MESSAGE_LENGTH \<longrightarrow>
            (\<exists>rest. calls (snd (handleSendMessage w (Some sel) message)) =
                     calls w @ InsertMessage sel uid (trim message) # rest)
          \<and> (\<not> fails w (InsertMessage sel uid (trim message)) \<longrightarrow>
               map content (messages_table (snd (handleSendMessage w (Some sel) message))) =
                 map content (messages_table w) @ [trim message]))"
proof (intro conjI impI)
  assume "trim message = [] \<or> MAX_MESSAGE_LENGTH < length (trim message)"
  then have "snd (handleSendMessage w (Some sel) message) = w
      \<or> snd (handleSendMessage w (Some sel) message) =
          w\<lparr>toasts := toasts w @ [''Message too long. Maximum 2000 characters.'']\<rparr>"
    and keep: "fst (handleSendMessage w (Some sel) message) = message"
    using assms(3) by (auto simp: handleSendMessage_def)
  then show "calls (snd (handleSendMessage w (Some sel) message)) = calls w"
    and "messages_table (snd (handleSendMessage w (Some sel) message)) = messages_table w"
    by auto
  show "fst (handleSendMessage w (Some sel) message) = message" by (rule keep)
next
  assume acc: "trim message \<noteq> [] \<and> length (trim message) \<le> MAX_MESSAGE_LENGTH"
  then have h: "handleSendMessage w (Some sel) message =
      (case sendMessage w sel message of
         (Returned u, w1) \<Rightarrow> ([], w1)
       | (Thrown e, w1) \<Rightarrow> (message, w1\<lparr>console := console w1 @ [''Failed to send message:'']\<rparr>))"
    using assms(3) by (simp add: handleSendMessage_def)
  show "\<exists>rest. calls (snd (handleSendMessage w (Some sel) message)) =
                     calls w @ InsertMessage sel uid (trim message) # rest"
  proof (cases "fails w (InsertMessage sel uid (trim message))")
    case True
    have "calls (snd (handleSendMessage w (Some sel) message)) =
        calls w @ InsertMessage sel uid (trim message) # []"
      using acc by (simp add: h sendMessage_insert_fails[OF assms(1,2) _ True])
    then show ?thesis by blast
  next
    case False
    have "calls (snd (handleSendMessage w (Some sel) message)) =
        calls w @ InsertMessage sel uid (trim message) # [UpdateBarterRequest sel (now w)]"
      using acc by (simp add: h sendMessage_inserts[OF assms(1,2) _ False])
    then show ?thesis by blast
  qed
  assume ok: "\<not> fails w (InsertMessage sel uid (trim message))"
  show "map content (messages_table (snd (handleSendMessage w (Some sel) message))) =
        map content (messages_table w) @ [trim message]"
    using acc by (simp add: h sendMessage_inserts[OF assms(1,2) _ ok])
qed

theorem append_validates_trimmed_content_witness:
  "currentUserId w_empty = Some ''A'' \<and> ''A'' \<noteq> [] \<and> ''r1'' \<noteq> [] \<and>
   trim blanks = [] \<and>
   calls (snd (handleSendMessage w_empty (Some ''r1'') blanks)) = calls w_empty \<and>
   MAX_MESSAGE_LENGTH < length (trim letters_2001) \<and>
   calls (snd (handleSendMessage w_empty (Some ''r1'') letters_2001)) = calls w_empty \<and>
   trim letters_2000 \<noteq> [] \<and> length letters_2000 = 2000 \<and>
   length (trim letters_2000) \<le> MAX_MESSAGE_LENGTH \<and>
   \<not> fails w_empty (InsertMessage ''r1'' ''A'' (trim letters_2000)) \<and>
   (\<exists>rest. calls (snd (handleSendMessage w_empty (Some ''r1'') letters_2000)) =
       calls w_empty @ InsertMessage ''r1'' ''A'' (trim letters_2000) # rest) \<and>
   map content (messages_table (snd (handleSendMessage w_empty (Some ''r1'') letters_2000))) =
     [letters_2000]"
proof -
  have h1: "currentUserId w_empty = Some ''A''" by (simp add: w_empty_def)
  have h2: "''A'' \<noteq> []" and h3: "''r1'' \<noteq> []" by simp_all
  have b: "trim blanks = []" unfolding blanks_def by (rule trim_spaces)
  have l1: "trim letters_2001 = letters_2001" unfolding letters_2001_def by (rule trim_letters)
  have l0: "trim letters_2000 = letters_2000" unfolding letters_2000_def by (rule trim_letters)
  have n1: "MAX_MESSAGE_LENGTH < length (trim letters_2001)"
    by (simp add: l1) (simp add: letters_2001_def MAX_MESSAGE_LENGTH_def)
  have n0: "length letters_2000 = 2000" by (simp add: letters_2000_def)
  have ne: "trim letters_2000 \<noteq> []"
    using n0 by (simp only: l0) auto
  have le: "length (trim letters_2000) \<le> MAX_MESSAGE_LENGTH"
    by (simp add: l0 n0 MAX_MESSAGE_LENGTH_def)
  have ok: "\<not> fails w_empty (InsertMessage ''r1'' ''A'' (trim letters_2000))"
    by (simp add: w_empty_def)
  have tb: "map content (messages_table w_empty) = []" by (simp add: w_empty_def)
  note A = append_validates_trimmed_content[OF h1 h2 h3, of blanks]
  note B = append_validates_trimmed_content[OF h1 h2 h3, of letters_2001]
  note C = append_validates_trimmed_content[OF h1 h2 h3, of letters_2000]
  have a: "calls (snd (handleSendMessage w_empty (Some ''r1'') blanks)) = calls w_empty"
    using A b by blast
  have b': "calls (snd (handleSendMessage w_empty (Some ''r1'') letters_2001)) = calls w_empty"
    using B n1 by blast
  have c1: "\<exists>rest. calls (snd (handleSendMessage w_empty (Some ''r1'') letters_2000)) =
       calls w_empty @ InsertMessage ''r1'' ''A'' (trim letters_2000) # rest"
    using C ne le by blast
  have "map content (messages_table (snd (handleSendMessage w_empty (Some ''r1'') letters_2000))) =
     map content (messages_table w_empty) @ [trim letters_2000]"
    using C ne le ok by blast
  then have c2: "map content (messages_table (snd (handleSendMessage w_empty (Some ''r1'') letters_2000))) =
     [letters_2000]"
    by (simp only: tb l0) simp
  show ?thesis using h1 h2 h3 b a n1 b' ne n0 le ok c1 c2 by blast
qed

subsection \<open>C2: merging an inserted message is idempotent on the message id\<close>

text \<open>
  C2. An insert event that carries a parent request id is delivered twice. The second
  delivery leaves the per-thread collections as the first one left them. After both, the
  thread of that request holds exactly one message with the id of the event, whenever it
  held at most one before the first delivery (a thread loaded from the store or built by
  merges never holds an id twice).
\<close>

theorem message_insert_idempotent:
  assumes "barter_request_id e = Some rid" and "rid \<noteq> []"
  shows "messages (on_message_insert (on_message_insert w e) e) = messages (on_message_insert w e)
       \<and> (count_list (map id_msg (or_empty (messages w rid))) (id_msg e) \<le> 1 \<longrightarrow>
          count_list (map id_msg
              (or_empty (messages (on_message_insert (on_message_insert w e) e) rid)))
            (id_msg e) = 1)"
proof -
  let ?w1 = "on_message_insert w e"
  let ?w2 = "on_message_insert ?w1 e"
  have m1: "messages ?w1 = merge_message (messages w) rid e"
    by (rule on_message_insert_messages[OF assms])
  have m2: "messages ?w2 = merge_message (messages ?w1) rid e"
    by (rule on_message_insert_messages[OF assms])
  have same: "messages ?w2 = messages ?w1"
    by (simp only: m2 m1 merge_message_twice)
  have "count_list (map id_msg (or_empty (messages ?w1 rid))) (id_msg e) = 1"
    if le: "count_list (map id_msg (or_empty (messages w rid))) (id_msg e) \<le> 1"
  proof (cases "id_msg e \<in> id_msg ` set (or_empty (messages w rid))")
    case True
    then have "count_list (map id_msg (or_empty (messages w rid))) (id_msg e) \<noteq> 0"
      by (simp add: count_list_0_iff)
    moreover have "or_empty (messages ?w1 rid) = or_empty (messages w rid)"
      using True by (simp add: m1 merge_message_thread)
    ultimately show ?thesis using le by arith
  next
    case False
    then have "count_list (map id_msg (or_empty (messages w rid))) (id_msg e) = 0"
      by (simp add: count_list_0_iff)
    moreover have "or_empty (messages ?w1 rid) = or_empty (messages w rid) @ [e]"
      using False by (simp add: m1 merge_message_thread)
    ultimately show ?thesis by simp
  qed
  then show ?thesis using same by simp
qed

theorem message_insert_idempotent_witness:
  "barter_request_id msg1 = Some ''r1'' \<and> ''r1'' \<noteq> [] \<and>
   count_list (map id_msg (or_empty (messages w_empty ''r1''))) (id_msg msg1) \<le> 1 \<and>
   messages (on_message_insert (on_message_insert w_empty msg1) msg1) =
     messages (on_message_insert w_empty msg1) \<and>
   count_list (map id_msg
       (or_empty (messages (on_message_insert (on_message_insert w_empty msg1) msg1) ''r1'')))
     (id_msg msg1) = 1"
proof -
  have h1: "barter_request_id msg1 = Some ''r1''" by (simp add: msg1_def)
  have h2: "''r1'' \<noteq> []" by simp
  have h3: "count_list (map id_msg (or_empty (messages w_empty ''r1''))) (id_msg msg1) \<le> 1"
    by (simp add: w_empty_def)
  show ?thesis
    using message_insert_idempotent[OF h1 h2, of w_empty] h1 h2 h3 by blast
qed

subsection \<open>C3: a request the user takes no part in is never listed\<close>

text \<open>
  C3. The user is signed in and the store answers the fetch of the requests. If in every
  request with a given id the user is neither the requester nor the owner the requested
  skill resolves to, then no conversation of the derived list has that id.
\<close>

theorem uninvolved_request_never_listed:
  assumes "currentUserId w = Some uid" and "uid \<noteq> []" and "\<not> fails w SelectBarterRequests"
    and "\<forall>r \<in> set (barter_requests w). id_req r = rid \<longrightarrow>
           requester_id r \<noteq> uid \<and> skills_user_id (join_skill w r) \<noteq> Some uid"
  shows "rid \<notin> id_conv ` set (conversations (fetchConversations w))"
proof
  assume "rid \<in> id_conv ` set (conversations (fetchConversations w))"
  then have "rid \<in> set (map id_conv (conversations (fetchConversations w)))" by simp
  then have "rid \<in> set (map id_req (filter (resolves w uid) (rows_of_barter_requests w)))"
    by (simp only: fetchConversations_ids[OF assms(1-3)])
  then obtain row where row: "row \<in> set (rows_of_barter_requests w)" "resolves w uid row"
      "id_req row = rid"
    by auto
  from row(1) obtain r where r: "r \<in> set (barter_requests w)" "row = join_skill w r"
    by (auto simp: rows_of_barter_requests_def)
  have same: "id_req row = id_req r" "requester_id row = requester_id r"
    by (simp_all add: r(2) join_skill_def)
  have "counterpart uid row \<noteq> None"
    using row(2) by (auto simp: resolves_def split: option.splits)
  then have "requester_id row = uid \<or> skills_user_id row = Some uid"
    by (auto simp: counterpart_def split: if_splits)
  moreover have "requester_id r \<noteq> uid \<and> skills_user_id (join_skill w r) \<noteq> Some uid"
    using assms(4) r(1) row(3) same(1) by auto
  ultimately show False by (simp add: same r(2)[symmetric])
qed

theorem uninvolved_request_never_listed_witness:
  "currentUserId w_mixed = Some ''A'' \<and> \<not> fails w_mixed SelectBarterRequests \<and>
   map id_req (barter_requests w_mixed) = [''r1'', ''r4'', ''r5''] \<and>
   map requester_id (barter_requests w_mixed) = [''A'', ''D'', ''D''] \<and>
   map (\<lambda>r. skills_user_id (join_skill w_mixed r)) (barter_requests w_mixed) =
     [Some ''B'', Some ''C'', Some ''A''] \<and>
   ''r4'' \<notin> id_conv ` set (conversations (fetchConversations w_mixed))"
proof -
  have h1: "currentUserId w_mixed = Some ''A''" by (simp add: w_mixed_def)
  have h2: "''A'' \<noteq> []" by simp
  have h3: "\<not> fails w_mixed SelectBarterRequests" by (simp add: w_mixed_def)
  have h4: "\<forall>r \<in> set (barter_requests w_mixed). id_req r = ''r4'' \<longrightarrow>
      requester_id r \<noteq> ''A'' \<and> skills_user_id (join_skill w_mixed r) \<noteq> Some ''A''"
    by (simp add: w_mixed_def join_skill_def)
  have rows: "map id_req (barter_requests w_mixed) = [''r1'', ''r4'', ''r5'']"
    "map requester_id (barter_requests w_mixed) = [''A'', ''D'', ''D'']"
    "map (\<lambda>r. skills_user_id (join_skill w_mixed r)) (barter_requests w_mixed) =
     [Some ''B'', Some ''C'', Some ''A'']"
    by (simp_all add: w_mixed_def join_skill_def)
  show ?thesis
    using uninvolved_request_never_listed[OF h1 h2 h3 h4] h1 h3 rows by blast
qed

subsection \<open>C4: a request whose lookups fail is dropped alone and silently\<close>

text \<open>
  C4. The user is signed in and the store answers the fetch of the requests. The derived
  list has one conversation for each fetched request that resolves (the user takes part,
  the other participant's id is there, the profile is found), in the order fetched, and
  none for any other request; nothing is notified or logged for a dropped request. With
  three requests of which one asks for a deleted skill, the list has the two others.
\<close>

theorem failed_lookup_drops_only_that_request:
  assumes "currentUserId w = Some uid" and "uid \<noteq> []" and "\<not> fails w SelectBarterRequests"
  shows "map id_conv (conversations (fetchConversations w)) =
           map id_req (filter (resolves w uid) (rows_of_barter_requests w))
       \<and> toasts (fetchConversations w) = toasts w
       \<and> console (fetchConversations w) = console w"
proof -
  obtain cs where "fetchConversations w =
     w\<lparr>calls := calls w @ cs,
       conversations := List.map_filter (\<lambda>r. fst (conv_step w uid r)) (rows_of_barter_requests w),
       loading := False\<rparr>"
    using fetchConversations_ok[OF assms] by blast
  then have "toasts (fetchConversations w) = toasts w" "console (fetchConversations w) = console w"
    by simp_all
  then show ?thesis using fetchConversations_ids[OF assms] by simp
qed

theorem failed_lookup_drops_only_that_request_witness:
  "currentUserId w_three = Some ''A'' \<and> ''A'' \<noteq> [] \<and> \<not> fails w_three SelectBarterRequests \<and>
   map id_req (rows_of_barter_requests w_three) = [''r3'', ''r2'', ''r1''] \<and>
   skills_user_id (join_skill w_three (barter_requests w_three ! 1)) = None \<and>
   map id_conv (conversations (fetchConversations w_three)) = [''r3'', ''r1''] \<and>
   length (conversations (fetchConversations w_three)) = 2 \<and>
   toasts (fetchConversations w_three) = [] \<and> console (fetchConversations w_three) = []"
proof -
  have h1: "currentUserId w_three = Some ''A''" by (simp add: w_three_def)
  have h2: "''A'' \<noteq> []" by simp
  have h3: "\<not> fails w_three SelectBarterRequests" by (simp add: w_three_def)
  have rows: "map id_req (rows_of_barter_requests w_three) = [''r3'', ''r2'', ''r1'']"
    by (simp add: w_three_def rows_of_barter_requests_def join_skill_def)
  have gone: "skills_user_id (join_skill w_three (barter_requests w_three ! 1)) = None"
    by (simp add: w_three_def join_skill_def)
  have kept: "map id_req (filter (resolves w_three ''A'') (rows_of_barter_requests w_three)) =
      [''r3'', ''r1'']"
    by (simp add: w_three_def rows_of_barter_requests_def join_skill_def resolves_def
        counterpart_def select_profile_def)
  have quiet: "toasts w_three = []" "console w_three = []" by (simp_all add: w_three_def)
  from failed_lookup_drops_only_that_request[OF h1 h2 h3]
  have ids: "map id_conv (conversations (fetchConversations w_three)) = [''r3'', ''r1'']"
    and q: "toasts (fetchConversations w_three) = []" "console (fetchConversations w_three) = []"
    by (simp_all only: kept quiet)
  have "length (map id_conv (conversations (fetchConversations w_three))) = 2"
    by (simp only: ids) simp
  then have "length (conversations (fetchConversations w_three)) = 2" by simp
  then show ?thesis using h1 h2 h3 rows gone ids q by blast
qed

subsection \<open>C5: an existing request of the user is returned\<close>

text \<open>
  C5 says that the call returns an existing request, and inserts none, as soon as the
  store holds at least one request sent by the user. The lookup is a \<^verbatim>\<open>.maybeSingle()\<close>
  with no \<^verbatim>\<open>.limit(1)\<close> (the lookup of the last message has one): with two requests
  of the user its answer is an error, the data is absent, and the call goes on to the
  creation branch. Here user \<open>A\<close> has sent \<open>r1\<close> and \<open>r2\<close>: with a skill to offer the
  call inserts a third request and returns its id; without one it returns no id and asks
  for a skill.
\<close>

theorem getOrCreate_with_two_existing:
  "currentUserId w_two = Some ''A'' \<and>
   map id_req (filter (\<lambda>r. requester_id r = ''A'') (barter_requests w_two)) = [''r1'', ''r2''] \<and>
   fst (select_request_of_requester w_two ''A'') = Inl NotSingleRow \<and>
   fst (getOrCreateConversation w_two ''B'' (Some ''sA'')) = Some ''x'' \<and>
   map id_req (barter_requests (snd (getOrCreateConversation w_two ''B'' (Some ''sA'')))) =
     [''r1'', ''r2'', ''x''] \<and>
   fst (getOrCreateConversation w_two ''B'' None) = None \<and>
   toasts (snd (getOrCreateConversation w_two ''B'' None)) =
     [''Please select a skill to offer first'']"
proof -
  have u: "currentUserId w_two = Some ''A''" by (simp add: w_two_def)
  have rows: "map id_req (filter (\<lambda>r. requester_id r = ''A'') (barter_requests w_two)) =
      [''r1'', ''r2'']"
    by (simp add: w_two_def)
  have sel: "fst (select_request_of_requester w_two ''A'') = Inl NotSingleRow"
    by (simp add: select_request_of_requester_def w_two_def)
  have none: "data_of_maybe (fst (select_request_of_requester w_two ''A'')) = None"
    by (simp add: sel)
  have ok: "\<not> fails w_two (InsertBarterRequest ''A'' ''sA'' ''sA'' ''pending'')"
    by (simp add: w_two_def)
  have c: "fresh_id w_two (issued w_two) = ''x''" "map id_req (barter_requests w_two) = [''r1'', ''r2'']"
      "toasts w_two = []"
    by (simp_all add: w_two_def)
  have "getOrCreateConversation w_two ''B'' (Some ''sA'') =
     (Some (fresh_id w_two (issued w_two)),
      fetchConversations
        (w_two\<lparr>calls := calls w_two @ [SelectRequestOfRequester ''A'',
                                 InsertBarterRequest ''A'' ''sA'' ''sA'' ''pending''],
           barter_requests := barter_requests w_two @
             [\<lparr>id_req = fresh_id w_two (issued w_two), requester_id = ''A'',
               requested_skill_id = ''sA'', offered_skill_id = ''sA'', status = ''pending'',
               updated_at = now w_two\<rparr>],
           issued := Suc (issued w_two)\<rparr>))"
    by (rule getOrCreate_created[OF u _ _ none _ ok]) simp_all
  then have a: "fst (getOrCreateConversation w_two ''B'' (Some ''sA'')) = Some ''x''"
    and b: "map id_req (barter_requests (snd (getOrCreateConversation w_two ''B'' (Some ''sA'')))) =
     [''r1'', ''r2'', ''x'']"
    by (simp_all add: c)
  have "getOrCreateConversation w_two ''B'' None =
     (None, w_two\<lparr>calls := calls w_two @ [SelectRequestOfRequester ''A''],
              toasts := toasts w_two @ [''Please select a skill to offer first'']\<rparr>)"
    by (rule getOrCreate_no_skill[OF u _ _ none]) simp_all
  then have d: "fst (getOrCreateConversation w_two ''B'' None) = None"
    and e: "toasts (snd (getOrCreateConversation w_two ''B'' None)) =
     [''Please select a skill to offer first'']"
    by (simp_all add: c)
  show ?thesis using u rows sel a b d e by blast
qed

text \<open>What does hold: when the lookup finds a request, which it does when the store
  answers and holds exactly one request sent by the user, the call returns that request
  and leaves the table as it is, whoever the other user is.\<close>

lemma getOrCreate_returns_single_existing:
  assumes "currentUserId w = Some uid" and "uid \<noteq> []" and "uid \<noteq> other"
    and "\<not> fails w (SelectRequestOfRequester uid)"
    and "filter (\<lambda>r. requester_id r = uid) (barter_requests w) = [r]"
  shows "fst (getOrCreateConversation w other off) = Some (id_req r)
       \<and> barter_requests (snd (getOrCreateConversation w other off)) = barter_requests w"
proof -
  have "data_of_maybe (fst (select_request_of_requester w uid)) = Some (id_req r)"
    using assms(4,5) by (simp add: select_request_of_requester_def)
  then show ?thesis by (simp add: getOrCreate_existing[OF assms(1-3)])
qed

subsection \<open>C6: no request found\<close>

text \<open>
  C6. A signed-in user asks for a conversation with another user, and the lookup finds no
  request. Without a skill to offer, the call returns no id, notifies ``Please select a
  skill to offer first'' and leaves the table of requests as it is. With a skill to
  offer, and a store that takes the insert, the table gets exactly one new row, with
  status \<open>pending\<close> and the user as requester, and the call returns the id of that row.
\<close>

theorem getOrCreate_without_existing:
  assumes "currentUserId w = Some uid" and "uid \<noteq> []" and "uid \<noteq> other"
    and "data_of_maybe (fst (select_request_of_requester w uid)) = None"
  shows "(\<not> truthy off \<longrightarrow>
            fst (getOrCreateConversation w other off) = None
          \<and> toasts (snd (getOrCreateConversation w other off)) =
              toasts w @ [''Please select a skill to offer first'']
          \<and> barter_requests (snd (getOrCreateConversation w other off)) = barter_requests w)
       \<and> (off = Some sk \<and> sk \<noteq> [] \<and> \<not> fails w (InsertBarterRequest uid sk sk ''pending'') \<longrightarrow>
            (\<exists>row. barter_requests (snd (getOrCreateConversation w other off)) =
                     barter_requests w @ [row]
                 \<and> status row = ''pending'' \<and> requester_id row = uid
                 \<and> fst (getOrCreateConversation w other off) = Some (id_req row)))"
proof (intro conjI impI)
  assume n: "\<not> truthy off"
  note r = getOrCreate_no_skill[OF assms n]
  show "fst (getOrCreateConversation w other off) = None"
    and "toasts (snd (getOrCreateConversation w other off)) =
              toasts w @ [''Please select a skill to offer first'']"
    and "barter_requests (snd (getOrCreateConversation w other off)) = barter_requests w"
    by (simp_all add: r)
next
  assume a: "off = Some sk \<and> sk \<noteq> [] \<and> \<not> fails w (InsertBarterRequest uid sk sk ''pending'')"
  let ?row = "\<lparr>id_req = fresh_id w (issued w), requester_id = uid, requested_skill_id = sk,
               offered_skill_id = sk, status = ''pending'', updated_at = now w\<rparr>"
  have r: "getOrCreateConversation w other off =
     (Some (fresh_id w (issued w)),
      fetchConversations
        (w\<lparr>calls := calls w @ [SelectRequestOfRequester uid,
                                 InsertBarterRequest uid sk sk ''pending''],
           barter_requests := barter_requests w @ [?row],
           issued := Suc (issued w)\<rparr>))"
    using a getOrCreate_created[OF assms, of sk] by simp
  have "barter_requests (snd (getOrCreateConversation w other off)) = barter_requests w @ [?row]
      \<and> status ?row = ''pending'' \<and> requester_id ?row = uid
      \<and> fst (getOrCreateConversation w other off) = Some (id_req ?row)"
    by (simp add: r)
  then show "\<exists>row. barter_requests (snd (getOrCreateConversation w other off)) =
                     barter_requests w @ [row]
                 \<and> status row = ''pending'' \<and> requester_id row = uid
                 \<and> fst (getOrCreateConversation w other off) = Some (id_req row)"
    by blast
qed

text \<open>The scenario of the specification: user \<open>A\<close> asks for a conversation with \<open>B\<close>, first
  with no skill to offer, then again with the skill \<open>sA\<close>.\<close>

theorem getOrCreate_without_existing_witness:
  "currentUserId w_empty = Some ''A'' \<and> ''A'' \<noteq> ''B'' \<and> barter_requests w_empty = [] \<and>
   fst (getOrCreateConversation w_empty ''B'' None) = None \<and>
   toasts (snd (getOrCreateConversation w_empty ''B'' None)) =
     [''Please select a skill to offer first''] \<and>
   barter_requests (snd (getOrCreateConversation w_empty ''B'' None)) = [] \<and>
   fst (getOrCreateConversation (snd (getOrCreateConversation w_empty ''B'' None)) ''B'' (Some ''sA''))
     = Some ''x'' \<and>
   map id_req (barter_requests (snd
     (getOrCreateConversation (snd (getOrCreateConversation w_empty ''B'' None)) ''B'' (Some ''sA''))))
     = [''x''] \<and>
   map status (barter_requests (snd
     (getOrCreateConversation (snd (getOrCreateConversation w_empty ''B'' None)) ''B'' (Some ''sA''))))
     = [''pending'']"
proof -
  let ?w1 = "snd (getOrCreateConversation w_empty ''B'' None)"
  let ?r2 = "getOrCreateConversation ?w1 ''B'' (Some ''sA'')"
  have h1: "currentUserId w_empty = Some ''A''" by (simp add: w_empty_def)
  have h2: "''A'' \<noteq> []" and h3: "''A'' \<noteq> ''B''" by simp_all
  have e: "barter_requests w_empty = []" "toasts w_empty = []" by (simp_all add: w_empty_def)
  have h4: "data_of_maybe (fst (select_request_of_requester w_empty ''A'')) = None"
    by (simp add: select_request_of_requester_def w_empty_def)
  have n: "\<not> truthy None" by simp
  from getOrCreate_without_existing[OF h1 h2 h3 h4, of None] n
  have first: "fst (getOrCreateConversation w_empty ''B'' None) = None"
      "toasts ?w1 = [''Please select a skill to offer first'']"
      "barter_requests ?w1 = []"
    by (simp_all add: e)
  have w1: "?w1 = w_empty\<lparr>calls := calls w_empty @ [SelectRequestOfRequester ''A''],
              toasts := toasts w_empty @ [''Please select a skill to offer first'']\<rparr>"
    by (simp add: getOrCreate_no_skill[OF h1 h2 h3 h4 n])
  have g1: "currentUserId ?w1 = Some ''A''" by (simp add: w1 h1)
  have g4: "data_of_maybe (fst (select_request_of_requester ?w1 ''A'')) = None"
    by (simp add: w1 select_request_of_requester_def e)
  have ok: "\<not> fails ?w1 (InsertBarterRequest ''A'' ''sA'' ''sA'' ''pending'')"
    by (simp add: w1) (simp add: w_empty_def)
  from getOrCreate_without_existing[OF g1 h2 h3 g4, of "Some ''sA''" "''sA''"] ok
  obtain row where row: "barter_requests (snd ?r2) = barter_requests ?w1 @ [row]"
      "status row = ''pending''" "fst ?r2 = Some (id_req row)"
    by auto
  have fid: "fresh_id ?w1 (issued ?w1) = ''x''"
    by (simp add: w1) (simp add: w_empty_def)
  have "fst ?r2 = Some ''x''"
    by (simp add: getOrCreate_created[OF g1 h2 h3 g4 _ ok] fid)
  then have idr: "id_req row = ''x''" using row(3) by simp
  have second: "fst ?r2 = Some ''x''" "map id_req (barter_requests (snd ?r2)) = [''x'']"
      "map status (barter_requests (snd ?r2)) = [''pending'']"
    using row idr by (simp_all add: first)
  show ?thesis using h1 h3 e(1) first second by blast
qed

subsection \<open>C7: the order of a thread\<close>

text \<open>
  C7, as stated: the collection of a thread stays ordered by creation time after any
  sequence of history loads and merges of inserted messages. It does not: the merge puts
  the new message at the end, whatever its creation time. Here \<open>msg1\<close>, created at 5, is
  delivered before \<open>msg0\<close>, created at 3.
\<close>

theorem merge_keeps_order_counterexample:
  "or_empty (messages w_empty ''r1'') = [] \<and>
   map created_at (or_empty (messages
       (on_message_insert (on_message_insert w_empty msg1) msg0) ''r1'')) = [5, 3] \<and>
   \<not> sorted (map created_at (or_empty (messages
       (on_message_insert (on_message_insert w_empty msg1) msg0) ''r1'')))"
proof -
  have b1: "barter_request_id msg1 = Some ''r1''" and b0: "barter_request_id msg0 = Some ''r1''"
    by (simp_all add: msg1_def msg0_def)
  have ne: "''r1'' \<noteq> []" by simp
  have e: "messages w_empty = Map.empty" by (simp add: w_empty_def)
  have m: "messages (on_message_insert (on_message_insert w_empty msg1) msg0) =
      merge_message (merge_message Map.empty ''r1'' msg1) ''r1'' msg0"
    by (simp only: on_message_insert_messages[OF b0 ne] on_message_insert_messages[OF b1 ne] e)
  have t: "or_empty (merge_message (merge_message Map.empty ''r1'' msg1) ''r1'' msg0 ''r1'') =
      [msg1, msg0]"
    by (simp add: merge_message_thread) (simp add: msg1_def msg0_def)
  have c: "map created_at [msg1, msg0] = [5, 3]" by (simp add: msg1_def msg0_def)
  have r: "map created_at (or_empty (messages
       (on_message_insert (on_message_insert w_empty msg1) msg0) ''r1'')) = [5, 3]"
    by (simp only: m t c)
  show ?thesis by (simp only: r) (simp add: e)
qed

text \<open>
  C7, amended. A history load that the store answers sets the thread to the messages of
  that thread in the table, ordered non-decreasing by creation time (the query orders by
  creation time alone). A history load, answered or not, keeps every ordered thread
  ordered. A merge keeps an ordered thread ordered when the inserted message, if it
  belongs to that thread, was created no earlier than the messages the thread holds.
\<close>

theorem threads_stay_ordered:
  "(\<not> fails w (SelectMessages rid) \<longrightarrow>
        messages (fetchMessages w rid) rid = Some (rows_of_messages w rid)
      \<and> sorted (map created_at (rows_of_messages w rid))
      \<and> mset (rows_of_messages w rid) =
          mset (filter (\<lambda>m. barter_request_id m = Some rid) (messages_table w)))
   \<and> (sorted (map created_at (or_empty (messages w t))) \<longrightarrow>
        sorted (map created_at (or_empty (messages (fetchMessages w rid) t))))
   \<and> (sorted (map created_at (or_empty (messages w t)))
      \<and> (barter_request_id e = Some t \<longrightarrow>
           (\<forall>m \<in> set (or_empty (messages w t)). created_at m \<le> created_at e)) \<longrightarrow>
        sorted (map created_at (or_empty (messages (on_message_insert w e) t))))"
proof (intro conjI impI)
  assume ok: "\<not> fails w (SelectMessages rid)"
  show "messages (fetchMessages w rid) rid = Some (rows_of_messages w rid)"
    by (simp add: fetchMessages_ok[OF ok])
  show "sorted (map created_at (rows_of_messages w rid))"
    by (rule rows_of_messages_sorted)
  show "mset (rows_of_messages w rid) =
          mset (filter (\<lambda>m. barter_request_id m = Some rid) (messages_table w))"
    by (rule rows_of_messages_mset)
next
  assume s: "sorted (map created_at (or_empty (messages w t)))"
  show "sorted (map created_at (or_empty (messages (fetchMessages w rid) t)))"
  proof (cases "fails w (SelectMessages rid)")
    case True
    then show ?thesis using s by (simp add: fetchMessages_fails)
  next
    case False
    then show ?thesis using s
      by (cases "t = rid") (simp_all add: fetchMessages_ok rows_of_messages_sorted)
  qed
next
  assume a: "sorted (map created_at (or_empty (messages w t)))
      \<and> (barter_request_id e = Some t \<longrightarrow>
           (\<forall>m \<in> set (or_empty (messages w t)). created_at m \<le> created_at e))"
  show "sorted (map created_at (or_empty (messages (on_message_insert w e) t)))"
  proof (cases "truthy (barter_request_id e)")
    case False
    then show ?thesis using a by (simp add: on_message_insert_discard)
  next
    case True
    then obtain r where r: "barter_request_id e = Some r" "r \<noteq> []"
      by (cases "barter_request_id e") auto
    have m: "messages (on_message_insert w e) = merge_message (messages w) r e"
      by (rule on_message_insert_messages[OF r])
    show ?thesis
    proof (cases "t = r")
      case False
      then show ?thesis using a by (simp add: m merge_message_other)
    next
      case True
      then show ?thesis using a r(1)
        by (auto simp: m merge_message_thread sorted_append)
    qed
  qed
qed

theorem threads_stay_ordered_witness:
  "\<not> fails w_history (SelectMessages ''r1'') \<and>
   map created_at (filter (\<lambda>m. barter_request_id m = Some ''r1'') (messages_table w_history)) = [5, 3] \<and>
   map created_at (or_empty (messages (fetchMessages w_history ''r1'') ''r1'')) = [3, 5] \<and>
   sorted (map created_at (or_empty (messages (fetchMessages w_history ''r1'') ''r1''))) \<and>
   sorted (map created_at (or_empty (messages (fetchMessages (fetchMessages w_history ''r1'') ''r9'') ''r1''))) \<and>
   barter_request_id msg2 = Some ''r1'' \<and> created_at msg2 = 7 \<and>
   sorted (map created_at (or_empty (messages
      (on_message_insert (fetchMessages w_history ''r1'') msg2) ''r1'')))"
proof -
  let ?w1 = "fetchMessages w_history ''r1''"
  have ok: "\<not> fails w_history (SelectMessages ''r1'')" by (simp add: w_history_def)
  have tab: "map created_at (filter (\<lambda>m. barter_request_id m = Some ''r1'') (messages_table w_history)) = [5, 3]"
    by (simp add: w_history_def msg1_def msg0_def)
  have rows: "rows_of_messages w_history ''r1'' = [msg0, msg1]"
    by (simp add: rows_of_messages_def w_history_def msg1_def msg0_def)
  from threads_stay_ordered[of w_history "''r1''" "''r1''" msg2] ok
  have th: "messages ?w1 ''r1'' = Some [msg0, msg1]"
    by (simp only: rows) simp
  then have t1: "or_empty (messages ?w1 ''r1'') = [msg0, msg1]" by simp
  have c: "map created_at [msg0, msg1] = [3, 5]" by (simp add: msg1_def msg0_def)
  have s1: "sorted (map created_at (or_empty (messages ?w1 ''r1'')))" by (simp only: t1 c) simp
  from threads_stay_ordered[of ?w1 "''r9''" "''r1''" msg2] s1
  have s2: "sorted (map created_at (or_empty (messages (fetchMessages ?w1 ''r9'') ''r1'')))"
    by blast
  have b: "barter_request_id msg2 = Some ''r1''" "created_at msg2 = 7" by (simp_all add: msg2_def)
  have le: "\<forall>m \<in> set (or_empty (messages ?w1 ''r1'')). created_at m \<le> created_at msg2"
    by (simp add: t1 msg0_def msg1_def msg2_def)
  from threads_stay_ordered[of ?w1 "''r1''" "''r1''" msg2] s1 le
  have s3: "sorted (map created_at (or_empty (messages (on_message_insert ?w1 msg2) ''r1'')))"
    by blast
  have v: "map created_at (or_empty (messages ?w1 ''r1'')) = [3, 5]" by (simp only: t1 c)
  show ?thesis using ok tab v s1 s2 b s3 by blast
qed

subsection \<open>C8: a failed fetch of the requests\<close>

text \<open>
  C8, as stated: whatever the list of conversations holds, after a failed fetch of the
  requests the list is empty. It is not: the \<^verbatim>\<open>catch\<close> never calls
  \<^verbatim>\<open>setConversations\<close>, so the list of the last derivation stays.
\<close>

theorem fetch_failure_empties_list_counterexample:
  "currentUserId w_down = Some ''A'' \<and> fails w_down SelectBarterRequests \<and>
   conversations w_down \<noteq> [] \<and>
   conversations (fetchConversations w_down) \<noteq> []"
  by (simp add: w_down_def fetchConversations_def select_barter_requests_def log_call_def)

text \<open>
  C8, amended. The user is signed in and the store does not answer the fetch of the
  requests. The derivation returns; it logs the error and notifies ``Failed to load
  conversations''; it clears the loading flag; and it leaves the list of conversations as
  it was (empty only if it was empty before). It sends the one request and no other.
\<close>

theorem fetch_failure_keeps_list:
  assumes "currentUserId w = Some uid" and "uid \<noteq> []" and "fails w SelectBarterRequests"
  shows "conversations (fetchConversations w) = conversations w
       \<and> toasts (fetchConversations w) = toasts w @ [''Failed to load conversations'']
       \<and> console (fetchConversations w) = console w @ [''Error fetching conversations:'']
       \<and> loading (fetchConversations w) = False
       \<and> calls (fetchConversations w) = calls w @ [SelectBarterRequests]"
  by (simp add: fetchConversations_fails[OF assms])

theorem fetch_failure_keeps_list_witness:
  "currentUserId w_down = Some ''A'' \<and> ''A'' \<noteq> [] \<and> fails w_down SelectBarterRequests \<and>
   conversations (fetchConversations w_down) = conversations w_down \<and>
   toasts (fetchConversations w_down) = [''Failed to load conversations''] \<and>
   loading (fetchConversations w_down) = False"
proof -
  have h1: "currentUserId w_down = Some ''A''" by (simp add: w_down_def)
  have h2: "''A'' \<noteq> []" by simp
  have h3: "fails w_down SelectBarterRequests" by (simp add: w_down_def)
  have t: "toasts w_down = []" by (simp add: w_down_def)
  show ?thesis
    using fetch_failure_keeps_list[OF h1 h2 h3] h1 h2 h3 by (simp add: t)
qed

subsection \<open>C9: the two writes of a send are not atomic\<close>

text \<open>
  C9. A signed-in user sends a content that is not empty after trimming, and the store
  takes the insert. The send makes two requests, in this order: the insert of the message,
  then the update of the request's activity time. If the store refuses the update, the send
  still returns, nothing is notified, the request keeps its old activity time, and the
  inserted message stays in the table, where the history query of its thread finds it.
\<close>

theorem append_two_writes_not_atomic:
  assumes "currentUserId w = Some uid" and "uid \<noteq> []" and "trim text \<noteq> []"
    and "\<not> fails w (InsertMessage rid uid (trim text))"
  shows "calls (snd (sendMessage w rid text)) =
           calls w @ [InsertMessage rid uid (trim text), UpdateBarterRequest rid (now w)]
       \<and> messages_table (snd (sendMessage w rid text)) =
           messages_table w @
             [\<lparr>id_msg = fresh_id w (issued w), sender_id = uid, content = trim text,
               created_at = now w, barter_request_id = Some rid\<rparr>]
       \<and> (fails w (UpdateBarterRequest rid (now w)) \<longrightarrow>
             fst (sendMessage w rid text) = Returned ()
           \<and> barter_requests (snd (sendMessage w rid text)) = barter_requests w
           \<and> toasts (snd (sendMessage w rid text)) = toasts w
           \<and> \<lparr>id_msg = fresh_id w (issued w), sender_id = uid, content = trim text,
               created_at = now w, barter_request_id = Some rid\<rparr>
               \<in> set (rows_of_messages (snd (sendMessage w rid text)) rid))"
  by (simp add: sendMessage_inserts[OF assms] rows_of_messages_def)

theorem append_two_writes_not_atomic_witness:
  "currentUserId w_no_update = Some ''A'' \<and> ''A'' \<noteq> [] \<and> trim letters_2000 \<noteq> [] \<and>
   \<not> fails w_no_update (InsertMessage ''r1'' ''A'' (trim letters_2000)) \<and>
   fails w_no_update (UpdateBarterRequest ''r1'' (now w_no_update)) \<and>
   calls (snd (sendMessage w_no_update ''r1'' letters_2000)) =
     [InsertMessage ''r1'' ''A'' letters_2000, UpdateBarterRequest ''r1'' 7] \<and>
   fst (sendMessage w_no_update ''r1'' letters_2000) = Returned () \<and>
   map content (messages_table (snd (sendMessage w_no_update ''r1'' letters_2000))) =
     [letters_2000] \<and>
   map updated_at (barter_requests (snd (sendMessage w_no_update ''r1'' letters_2000))) = [1]"
proof -
  have h1: "currentUserId w_no_update = Some ''A''" by (simp add: w_no_update_def)
  have h2: "''A'' \<noteq> []" by simp
  have l0: "trim letters_2000 = letters_2000" unfolding letters_2000_def by (rule trim_letters)
  have "length letters_2000 = 2000" by (simp add: letters_2000_def)
  then have h3: "trim letters_2000 \<noteq> []" by (simp only: l0) auto
  have h4: "\<not> fails w_no_update (InsertMessage ''r1'' ''A'' (trim letters_2000))"
    by (simp add: w_no_update_def)
  have h5: "fails w_no_update (UpdateBarterRequest ''r1'' (now w_no_update))"
    by (simp add: w_no_update_def)
  have c: "calls w_no_update = []" "now w_no_update = 7" "messages_table w_no_update = []"
      "map updated_at (barter_requests w_no_update) = [1]"
    by (simp_all add: w_no_update_def)
  from append_two_writes_not_atomic[OF h1 h2 h3 h4] h5
  have "calls (snd (sendMessage w_no_update ''r1'' letters_2000)) =
     [InsertMessage ''r1'' ''A'' letters_2000, UpdateBarterRequest ''r1'' 7]"
    and "fst (sendMessage w_no_update ''r1'' letters_2000) = Returned ()"
    and "map content (messages_table (snd (sendMessage w_no_update ''r1'' letters_2000))) =
     [letters_2000]"
    and "map updated_at (barter_requests (snd (sendMessage w_no_update ''r1'' letters_2000))) = [1]"
    by (simp_all add: c l0)
  then show ?thesis using h1 h2 h3 h4 h5 by blast
qed

subsection \<open>C10: the created request does not depend on the other user\<close>

text \<open>
  C10. In the creation branch (signed-in user, nothing found by the lookup, a skill to
  offer, a store that takes the insert) the inserted row has the user as requester, the
  offered skill both as requested and as offered skill, and status \<open>pending\<close>; the other
  user is in none of its fields. For any two other users the call gives the same result
  and the same world.
\<close>

theorem created_request_ignores_other_user:
  assumes "currentUserId w = Some uid" and "uid \<noteq> []"
    and "uid \<noteq> other" and "uid \<noteq> other'"
    and "data_of_maybe (fst (select_request_of_requester w uid)) = None"
    and "sk \<noteq> []" and "\<not> fails w (InsertBarterRequest uid sk sk ''pending'')"
  shows "barter_requests (snd (getOrCreateConversation w other (Some sk))) =
           barter_requests w @
             [\<lparr>id_req = fresh_id w (issued w), requester_id = uid, requested_skill_id = sk,
               offered_skill_id = sk, status = ''pending'', updated_at = now w\<rparr>]
       \<and> getOrCreateConversation w other' (Some sk) = getOrCreateConversation w other (Some sk)"
  by (simp add: getOrCreate_created[OF assms(1,2,3,5,6,7)]
      getOrCreate_created[OF assms(1,2,4,5,6,7)])

theorem created_request_ignores_other_user_witness:
  "currentUserId w_empty = Some ''A'' \<and> ''A'' \<noteq> ''B'' \<and> ''A'' \<noteq> ''C'' \<and> ''sA'' \<noteq> [] \<and>
   barter_requests (snd (getOrCreateConversation w_empty ''B'' (Some ''sA''))) =
     [\<lparr>id_req = ''x'', requester_id = ''A'', requested_skill_id = ''sA'',
       offered_skill_id = ''sA'', status = ''pending'', updated_at = 0\<rparr>] \<and>
   getOrCreateConversation w_empty ''C'' (Some ''sA'') =
     getOrCreateConversation w_empty ''B'' (Some ''sA'')"
proof -
  have h1: "currentUserId w_empty = Some ''A''" by (simp add: w_empty_def)
  have h2: "''A'' \<noteq> []" and h3: "''A'' \<noteq> ''B''" and h4: "''A'' \<noteq> ''C''" by simp_all
  have h5: "data_of_maybe (fst (select_request_of_requester w_empty ''A'')) = None"
    by (simp add: select_request_of_requester_def w_empty_def)
  have h6: "''sA'' \<noteq> []" by simp
  have h7: "\<not> fails w_empty (InsertBarterRequest ''A'' ''sA'' ''sA'' ''pending'')"
    by (simp add: w_empty_def)
  have c: "barter_requests w_empty = []" "fresh_id w_empty (issued w_empty) = ''x''"
      "now w_empty = 0"
    by (simp_all add: w_empty_def)
  from created_request_ignores_other_user[OF h1 h2 h3 h4 h5 h6 h7]
  have "barter_requests (snd (getOrCreateConversation w_empty ''B'' (Some ''sA''))) =
     [\<lparr>id_req = ''x'', requester_id = ''A'', requested_skill_id = ''sA'',
       offered_skill_id = ''sA'', status = ''pending'', updated_at = 0\<rparr>]"
    and "getOrCreateConversation w_empty ''C'' (Some ''sA'') =
     getOrCreateConversation w_empty ''B'' (Some ''sA'')"
    by (simp_all add: c)
  then show ?thesis using h1 h3 h4 h6 by blast
qed

end
